theory Spec2Isabelle
  imports Main
begin

section \<open>Condition terms\<close>

text \<open>
  Conditions are claripy ASTs: immutable terms with an operator name \<open>op\<close> and a tuple of
  arguments \<open>args\<close>. Leaves are boolean and bit-vector constants and named symbols; every
  other node carries the operator name (\<open>''Not''\<close>, \<open>''And''\<close>, \<open>''Or''\<close>, \<open>''__eq__''\<close>,
  \<open>''ULT''\<close>, ...) and its argument terms.
\<close>

datatype ast =
    BoolV bool
  | BoolS string
  | BVV int nat
  | BVS string nat
  | Op string "ast list"

text \<open>Python exceptions that the modelled code can raise.\<close>

datatype error =
    IndexError
  | AttributeError
  | ValueError
  | KeyError
  | AssertionError
  | NotImplementedError
  | EmptyBlockNotice
  | AngrRuntimeError
  | RecursionError
  | StopIteration

fun ast_op :: "ast \<Rightarrow> string" where
  "ast_op (BoolV b) = ''BoolV''"
| "ast_op (BoolS n) = ''BoolS''"
| "ast_op (BVV v w) = ''BVV''"
| "ast_op (BVS n w) = ''BVS''"
| "ast_op (Op n xs) = n"

text \<open>The argument terms of a node; the code reads them only after a test of \<open>op\<close>.\<close>

fun ast_args :: "ast \<Rightarrow> ast list" where
  "ast_args (Op n xs) = xs"
| "ast_args c = []"

text \<open>\<open>xs[i]\<close> on a tuple: out of range raises IndexError.\<close>

definition item :: "'a list \<Rightarrow> nat \<Rightarrow> error + 'a" where
  "item xs i = (if i < length xs then Inr (xs ! i) else Inl IndexError)"

text \<open>\<open>ast.variables\<close>: the names of the symbols below a term.\<close>

fun variables :: "ast \<Rightarrow> string set" where
  "variables (BoolV b) = {}"
| "variables (BoolS n) = {n}"
| "variables (BVV v w) = {}"
| "variables (BVS n w) = {n}"
| "variables (Op n xs) = (\<Union>x \<in> set xs. variables x)"

text \<open>\<open>ast.depth\<close>: a leaf has depth 1, a node one more than its deepest argument.\<close>

fun depth :: "ast \<Rightarrow> nat" where
  "depth (Op n xs) = Suc (fold max (map depth xs) 0)"
| "depth c = 1"

text \<open>
  The claripy operation constructors (\<open>claripy.Not\<close>, \<open>claripy.And\<close>, \<open>claripy.Or\<close>,
  \<open>a == b\<close>, \<open>a.ULE(b)\<close>, ...) belong to the claripy library, which may normalise a term
  while it builds it. They enter the model as one parameter: a function from the operator
  name and the arguments to the term that the library returns.
\<close>

type_synonym claripy_op = "string \<Rightarrow> ast list \<Rightarrow> ast"

text \<open>
  sympy's boolean expressions, as \<open>claripy_ast_to_sympy_expr\<close> builds them and as
  \<open>sympy_expr_to_claripy_ast\<close> inspects them. A symbol is named by the decimal string of
  the hash of the claripy term it stands for; the model keeps the hash itself. \<open>SOther\<close> is
  any expression that is none of the kinds the code tests for.
\<close>

datatype sympy =
    Symbol int
  | SAnd "sympy list"
  | SOr "sympy list"
  | SNot sympy
  | BooleanTrue
  | BooleanFalse
  | SOther

text \<open>
  The external collaborators of the simplification passes:
  \<^item> \<open>lib_op\<close>: the claripy operation constructors;
  \<^item> \<open>lib_hash\<close>: Python's \<open>hash\<close> on a claripy term;
  \<^item> \<open>lib_simplify_logic\<close>: the boolean-minimization oracle \<open>sympy.simplify_logic\<close>
    (\<open>deep=False\<close>), together with whatever evaluation sympy's own constructors perform on
    the expression handed to it;
  \<^item> \<open>lib_satisfiable\<close>: a fresh \<open>claripy.SolverCacheless\<close> asked whether the conjunction
    of the given constraints is satisfiable;
  \<^item> \<open>lib_recursion_limit\<close>: the depth at which Python gives up a recursion.
\<close>

record library =
  lib_op :: claripy_op
  lib_hash :: "ast \<Rightarrow> int"
  lib_simplify_logic :: "sympy \<Rightarrow> sympy"
  lib_satisfiable :: "ast list \<Rightarrow> bool"
  lib_recursion_limit :: nat

section \<open>Expression simplification\<close>

definition UNIFIABLE_COMPARISONS :: "string list" where
  "UNIFIABLE_COMPARISONS = [''__ne__'', ''__gt__'', ''__ge__'', ''UGT'', ''UGE'', ''SGT'', ''SGE'']"

definition INVERSE_OPERATIONS :: "(string \<times> string) list" where
  "INVERSE_OPERATIONS =
    [(''__eq__'', ''__ne__''), (''__ne__'', ''__eq__''), (''__gt__'', ''__le__''),
     (''__lt__'', ''__ge__''), (''__ge__'', ''__lt__''), (''__le__'', ''__gt__''),
     (''ULT'', ''UGE''), (''UGE'', ''ULT''), (''UGT'', ''ULE''), (''ULE'', ''UGT''),
     (''SLT'', ''SGE''), (''SGE'', ''SLT''), (''SLE'', ''SGT''), (''SGT'', ''SLE'')]"

text \<open>
  \<open>claripy_ast_to_sympy_expr(ast, memo)\<close>. The memo is keyed by sympy symbols, so the test
  \<open>ast in memo\<close> on a claripy term never succeeds and every other term becomes a symbol that
  is recorded in the memo. A comparison in \<open>UNIFIABLE_COMPARISONS\<close> is rebuilt through the
  library as its inverse and the function calls itself on the library's answer, which is
  not a sub-term: the first argument bounds the depth of the recursion.
\<close>

fun claripy_ast_to_sympy_expr ::
    "library \<Rightarrow> nat \<Rightarrow> ast \<Rightarrow> (int \<rightharpoonup> ast) \<Rightarrow> error + (sympy \<times> (int \<rightharpoonup> ast))"
  and claripy_asts_to_sympy_exprs ::
    "library \<Rightarrow> nat \<Rightarrow> ast list \<Rightarrow> (int \<rightharpoonup> ast) \<Rightarrow> error + (sympy list \<times> (int \<rightharpoonup> ast))"
where
  "claripy_ast_to_sympy_expr L 0 a memo = Inl RecursionError"
| "claripy_ast_to_sympy_expr L (Suc k) a memo =
    (if ast_op a = ''And'' then
       (case claripy_asts_to_sympy_exprs L k (ast_args a) memo of
          Inl e \<Rightarrow> Inl e
        | Inr (xs, m) \<Rightarrow> Inr (SAnd xs, m))
     else if ast_op a = ''Or'' then
       (case claripy_asts_to_sympy_exprs L k (ast_args a) memo of
          Inl e \<Rightarrow> Inl e
        | Inr (xs, m) \<Rightarrow> Inr (SOr xs, m))
     else if ast_op a = ''Not'' then
       (case item (ast_args a) 0 of
          Inl e \<Rightarrow> Inl e
        | Inr x \<Rightarrow>
            (case claripy_ast_to_sympy_expr L k x memo of
               Inl e \<Rightarrow> Inl e
             | Inr (s, m) \<Rightarrow> Inr (SNot s, m)))
     else if ast_op a \<in> set UNIFIABLE_COMPARISONS then
       (case map_of INVERSE_OPERATIONS (ast_op a) of
          None \<Rightarrow> Inl KeyError
        | Some inv_op \<Rightarrow>
            (case item (ast_args a) 0 of
               Inl e \<Rightarrow> Inl e
             | Inr a0 \<Rightarrow>
                 (case item (ast_args a) 1 of
                    Inl e \<Rightarrow> Inl e
                  | Inr a1 \<Rightarrow>
                      (case claripy_ast_to_sympy_expr L k (lib_op L inv_op [a0, a1]) memo of
                         Inl e \<Rightarrow> Inl e
                       | Inr (s, m) \<Rightarrow> Inr (SNot s, m)))))
     else Inr (Symbol (lib_hash L a), memo(lib_hash L a \<mapsto> a)))"
| "claripy_asts_to_sympy_exprs L k [] memo = Inr ([], memo)"
| "claripy_asts_to_sympy_exprs L k (x # xs) memo =
    (case claripy_ast_to_sympy_expr L k x memo of
       Inl e \<Rightarrow> Inl e
     | Inr (s, m) \<Rightarrow>
         (case claripy_asts_to_sympy_exprs L k xs m of
            Inl e \<Rightarrow> Inl e
          | Inr (ss, m') \<Rightarrow> Inr (s # ss, m')))"

text \<open>\<open>sympy_expr_to_claripy_ast(expr, memo)\<close>; \<open>memo[expr]\<close> raises KeyError on an unknown symbol.\<close>

fun sympy_expr_to_claripy_ast :: "library \<Rightarrow> sympy \<Rightarrow> (int \<rightharpoonup> ast) \<Rightarrow> error + ast"
  and sympy_exprs_to_claripy_asts :: "library \<Rightarrow> sympy list \<Rightarrow> (int \<rightharpoonup> ast) \<Rightarrow> error + ast list"
where
  "sympy_expr_to_claripy_ast L (Symbol s) memo =
    (case memo s of None \<Rightarrow> Inl KeyError | Some a \<Rightarrow> Inr a)"
| "sympy_expr_to_claripy_ast L (SOr xs) memo =
    (case sympy_exprs_to_claripy_asts L xs memo of
       Inl e \<Rightarrow> Inl e
     | Inr ys \<Rightarrow> Inr (lib_op L ''Or'' ys))"
| "sympy_expr_to_claripy_ast L (SAnd xs) memo =
    (case sympy_exprs_to_claripy_asts L xs memo of
       Inl e \<Rightarrow> Inl e
     | Inr ys \<Rightarrow> Inr (lib_op L ''And'' ys))"
| "sympy_expr_to_claripy_ast L (SNot x) memo =
    (case sympy_expr_to_claripy_ast L x memo of
       Inl e \<Rightarrow> Inl e
     | Inr y \<Rightarrow> Inr (lib_op L ''Not'' [y]))"
| "sympy_expr_to_claripy_ast L BooleanTrue memo = Inr (BoolV True)"
| "sympy_expr_to_claripy_ast L BooleanFalse memo = Inr (BoolV False)"
| "sympy_expr_to_claripy_ast L SOther memo = Inl AngrRuntimeError"
| "sympy_exprs_to_claripy_asts L [] memo = Inr []"
| "sympy_exprs_to_claripy_asts L (x # xs) memo =
    (case sympy_expr_to_claripy_ast L x memo of
       Inl e \<Rightarrow> Inl e
     | Inr y \<Rightarrow>
         (case sympy_exprs_to_claripy_asts L xs memo of
            Inl e \<Rightarrow> Inl e
          | Inr ys \<Rightarrow> Inr (y # ys)))"

text \<open>\<open>simplify_condition(cond, depth_limit=8, variables_limit=8)\<close>.\<close>

definition simplify_condition :: "library \<Rightarrow> ast \<Rightarrow> nat \<Rightarrow> nat \<Rightarrow> error + ast" where
  "simplify_condition L cond depth_limit variables_limit =
    (if depth cond > depth_limit \<or> card (variables cond) > variables_limit then Inr cond
     else
       (case claripy_ast_to_sympy_expr L (lib_recursion_limit L) cond Map.empty of
          Inl e \<Rightarrow> Inl e
        | Inr (sympy_expr, memo) \<Rightarrow>
            sympy_expr_to_claripy_ast L (lib_simplify_logic L sympy_expr) memo))"

text \<open>
  \<open>_revert_short_circuit_conditions(cond)\<close>: \<open>!A||(A&&!B) ==> !(A&&B)\<close>. Unpacking
  \<open>cond.args[:2]\<close> of an argument-less \<open>Or\<close> raises ValueError. The solver receives the
  single constraint \<open>not_a == x\<close>, where \<open>x\<close> is the conjunct whose variable set is that of
  \<open>not_a\<close>.
\<close>

definition revert_short_circuit_conditions :: "library \<Rightarrow> ast \<Rightarrow> error + ast" where
  "revert_short_circuit_conditions L cond =
    (if ast_op cond \<noteq> ''Or'' then Inr cond
     else if length (ast_args cond) = 1 then Inr (ast_args cond ! 0)
     else
       (case take 2 (ast_args cond) of
          [x0, x1] \<Rightarrow>
            (case (if ast_op x1 = ''And'' then Some (x0, x1)
                   else if ast_op x0 = ''And'' then Some (x1, x0)
                   else None) of
               None \<Rightarrow> Inr cond
             | Some (not_a, or_arg1) \<Rightarrow>
                 (case item (ast_args or_arg1) 0 of
                    Inl e \<Rightarrow> Inl e
                  | Inr c0 \<Rightarrow>
                      (case item (ast_args or_arg1) 1 of
                         Inl e \<Rightarrow> Inl e
                       | Inr c1 \<Rightarrow>
                           (case (if variables not_a = variables c0 then Some (c0, c1)
                                  else if variables not_a = variables c1 then Some (c1, c0)
                                  else None) of
                              None \<Rightarrow> Inr cond
                            | Some (x, not_b) \<Rightarrow>
                                if \<not> lib_satisfiable L [lib_op L ''__eq__'' [not_a, x]] then
                                  (let b = lib_op L ''Not'' [not_b];
                                       a = lib_op L ''Not'' [not_a]
                                   in if length (ast_args cond) \<le> 2
                                      then Inr (lib_op L ''Not'' [lib_op L ''And'' [a, b]])
                                      else Inr (lib_op L ''Or''
                                             (lib_op L ''Not'' [lib_op L ''And'' [a, b]]
                                                # drop 2 (ast_args cond))))
                                else Inr cond))))
        | _ \<Rightarrow> Inl ValueError))"

text \<open>
  \<open>_fold_double_negations(cond)\<close>; the result is \<open>None\<close> when no rule applies. A two-element
  \<open>And\<close> whose first conjunct is no negation falls through to the test for \<open>Or\<close>, which
  fails, and so to \<open>None\<close>. The nested calls of \<open>simplify_condition\<close> use its default limits.
\<close>

definition fold_double_negations :: "library \<Rightarrow> ast \<Rightarrow> error + ast option" where
  "fold_double_negations L cond =
    (if ast_op cond \<noteq> ''Not'' then Inr None
     else
       (case item (ast_args cond) 0 of
          Inl e \<Rightarrow> Inl e
        | Inr c0 \<Rightarrow>
            if ast_op c0 = ''Not'' then Inr (Some c0)
            else if ast_op c0 = ''And'' \<and> length (ast_args c0) = 2 then
              (let and_0 = ast_args c0 ! 0; and_1 = ast_args c0 ! 1 in
               if ast_op and_0 = ''Not'' \<and> ast_op and_1 = ''Not'' then
                 (case item (ast_args and_0) 0 of
                    Inl e \<Rightarrow> Inl e
                  | Inr a \<Rightarrow>
                      (case item (ast_args and_1) 0 of
                         Inl e \<Rightarrow> Inl e
                       | Inr b \<Rightarrow> Inr (Some (lib_op L ''Or'' [a, b]))))
               else if ast_op and_0 = ''Not'' then
                 (case item (ast_args and_0) 0 of
                    Inl e \<Rightarrow> Inl e
                  | Inr a \<Rightarrow>
                      (case simplify_condition L (lib_op L ''Not'' [and_1]) 8 8 of
                         Inl e \<Rightarrow> Inl e
                       | Inr nb \<Rightarrow> Inr (Some (lib_op L ''Or'' [a, nb]))))
               else Inr None)
            else if ast_op c0 = ''Or'' \<and> length (ast_args c0) = 2 then
              (let or_0 = ast_args c0 ! 0; or_1 = ast_args c0 ! 1 in
               case simplify_condition L (lib_op L ''Not'' [or_0]) 8 8 of
                 Inl e \<Rightarrow> Inl e
               | Inr n0 \<Rightarrow>
                   (case simplify_condition L (lib_op L ''Not'' [or_1]) 8 8 of
                      Inl e \<Rightarrow> Inl e
                    | Inr n1 \<Rightarrow> Inr (Some (lib_op L ''And'' [n0, n1]))))
            else Inr None))"

text \<open>\<open>_extract_terms(ast)\<close>: the generator's items, in order.\<close>

fun extract_terms :: "ast \<Rightarrow> error + ast list"
  and extract_terms_of_args :: "ast list \<Rightarrow> error + ast list"
where
  "extract_terms (Op n xs) =
    (if n = ''And'' \<or> n = ''Or'' then extract_terms_of_args xs
     else if n = ''Not'' then
       (case xs of [] \<Rightarrow> Inl IndexError | x # rest \<Rightarrow> extract_terms x)
     else Inr [Op n xs])"
| "extract_terms (BoolV b) = Inr [BoolV b]"
| "extract_terms (BoolS s) = Inr [BoolS s]"
| "extract_terms (BVV v w) = Inr [BVV v w]"
| "extract_terms (BVS s w) = Inr [BVS s w]"
| "extract_terms_of_args [] = Inr []"
| "extract_terms_of_args (x # xs) =
    (case extract_terms x of
       Inl e \<Rightarrow> Inl e
     | Inr ts \<Rightarrow>
         (case extract_terms_of_args xs of
            Inl e \<Rightarrow> Inl e
          | Inr us \<Rightarrow> Inr (ts @ us)))"

text \<open>
  \<open>_replace_term_in_ast(ast, r0, r0_with, r1, r1_with)\<close>. \<open>r1\<close> is \<open>None\<close> when the term has no
  negation among the terms. Claripy interns its terms, so the identity test \<open>ast is r0\<close> is
  equality of terms.
\<close>

fun replace_term_in_ast :: "library \<Rightarrow> ast \<Rightarrow> ast \<Rightarrow> ast \<Rightarrow> ast option \<Rightarrow> ast \<Rightarrow> error + ast"
  and replace_term_in_asts :: "library \<Rightarrow> ast list \<Rightarrow> ast \<Rightarrow> ast \<Rightarrow> ast option \<Rightarrow> ast \<Rightarrow> error + ast list"
where
  "replace_term_in_ast L (Op n xs) r0 r0_with r1 r1_with =
    (if n = ''And'' then
       (case replace_term_in_asts L xs r0 r0_with r1 r1_with of
          Inl e \<Rightarrow> Inl e
        | Inr ys \<Rightarrow> Inr (lib_op L ''And'' ys))
     else if n = ''Or'' then
       (case replace_term_in_asts L xs r0 r0_with r1 r1_with of
          Inl e \<Rightarrow> Inl e
        | Inr ys \<Rightarrow> Inr (lib_op L ''Or'' ys))
     else if n = ''Not'' then
       (case xs of
          [] \<Rightarrow> Inl IndexError
        | x # rest \<Rightarrow>
            (case replace_term_in_ast L x r0 r0_with r1 r1_with of
               Inl e \<Rightarrow> Inl e
             | Inr y \<Rightarrow> Inr (lib_op L ''Not'' [y])))
     else if Op n xs = r0 then Inr r0_with
     else if Some (Op n xs) = r1 then Inr r1_with
     else Inr (Op n xs))"
| "replace_term_in_ast L (BoolV b) r0 r0_with r1 r1_with =
    (if BoolV b = r0 then Inr r0_with else if Some (BoolV b) = r1 then Inr r1_with
     else Inr (BoolV b))"
| "replace_term_in_ast L (BoolS s) r0 r0_with r1 r1_with =
    (if BoolS s = r0 then Inr r0_with else if Some (BoolS s) = r1 then Inr r1_with
     else Inr (BoolS s))"
| "replace_term_in_ast L (BVV v w) r0 r0_with r1 r1_with =
    (if BVV v w = r0 then Inr r0_with else if Some (BVV v w) = r1 then Inr r1_with
     else Inr (BVV v w))"
| "replace_term_in_ast L (BVS s w) r0 r0_with r1 r1_with =
    (if BVS s w = r0 then Inr r0_with else if Some (BVS s w) = r1 then Inr r1_with
     else Inr (BVS s w))"
| "replace_term_in_asts L [] r0 r0_with r1 r1_with = Inr []"
| "replace_term_in_asts L (x # xs) r0 r0_with r1 r1_with =
    (case replace_term_in_ast L x r0 r0_with r1 r1_with of
       Inl e \<Rightarrow> Inl e
     | Inr y \<Rightarrow>
         (case replace_term_in_asts L xs r0 r0_with r1 r1_with of
            Inl e \<Rightarrow> Inl e
          | Inr ys \<Rightarrow> Inr (y # ys)))"

text \<open>
  \<open>_remove_redundant_terms(cond)\<close>. Python sets are modelled by duplicate-free lists. The
  first loop pairs every term with its negation when that is a term too; the second loop
  asks the solver, for each remaining term, whether forcing it true and forcing it false
  ever changes the condition, and prints the term when it never does. The function has no
  return statement: the model returns the value \<open>None\<close> together with the printed terms.
\<close>

definition pair_negation ::
    "library \<Rightarrow> ast list \<Rightarrow> ast \<Rightarrow> (ast \<rightharpoonup> ast) \<times> ast list \<times> ast list
      \<Rightarrow> (ast \<rightharpoonup> ast) \<times> ast list \<times> ast list" where
  "pair_negation L all_terms t st =
    (case st of (negations, to_skip, all_terms_without_negs) \<Rightarrow>
       if t \<in> set to_skip then st
       else
         (let neg = lib_op L ''Not'' [t] in
          if neg \<in> set all_terms
          then (negations(t \<mapsto> neg), List.insert neg to_skip, List.insert t all_terms_without_negs)
          else (negations, to_skip, List.insert t all_terms_without_negs)))"

definition term_is_redundant :: "library \<Rightarrow> ast \<Rightarrow> ast \<Rightarrow> ast option \<Rightarrow> error + bool" where
  "term_is_redundant L cond t neg =
    (case replace_term_in_ast L cond t (BoolV True) neg (BoolV False) of
       Inl e \<Rightarrow> Inl e
     | Inr replaced_with_true \<Rightarrow>
         (let sat0 = lib_satisfiable L [cond, lib_op L ''Not'' [replaced_with_true]];
              sat1 = lib_satisfiable L [lib_op L ''Not'' [cond], replaced_with_true]
          in if sat0 \<or> sat1 then Inr False
             else
               (case replace_term_in_ast L cond t (BoolV False) neg (BoolV True) of
                  Inl e \<Rightarrow> Inl e
                | Inr replaced_with_false \<Rightarrow>
                    (let sat0 = lib_satisfiable L [cond, lib_op L ''Not'' [replaced_with_false]];
                         sat1 = lib_satisfiable L [lib_op L ''Not'' [cond], replaced_with_false]
                     in if sat0 \<or> sat1 then Inr False else Inr True))))"

fun report_redundant_terms :: "library \<Rightarrow> ast \<Rightarrow> (ast \<rightharpoonup> ast) \<Rightarrow> ast list \<Rightarrow> error + ast list" where
  "report_redundant_terms L cond negations [] = Inr []"
| "report_redundant_terms L cond negations (t # ts) =
    (case term_is_redundant L cond t (negations t) of
       Inl e \<Rightarrow> Inl e
     | Inr r \<Rightarrow>
         (case report_redundant_terms L cond negations ts of
            Inl e \<Rightarrow> Inl e
          | Inr printed \<Rightarrow> Inr (if r then t # printed else printed)))"

definition remove_redundant_terms :: "library \<Rightarrow> ast \<Rightarrow> error + (ast option \<times> ast list)" where
  "remove_redundant_terms L cond =
    (case extract_terms cond of
       Inl e \<Rightarrow> Inl e
     | Inr ts \<Rightarrow>
         (let all_terms = remdups ts;
              st = fold (pair_negation L all_terms) all_terms (Map.empty, [], [])
          in case st of (negations, to_skip, all_terms_without_negs) \<Rightarrow>
               (case report_redundant_terms L cond negations (rev all_terms_without_negs) of
                  Inl e \<Rightarrow> Inl e
                | Inr printed \<Rightarrow> Inr (None, printed))))"

section \<open>Meaning of conditions and example collaborators\<close>

text \<open>
  The truth value of a condition under an assignment of the boolean symbols (\<open>bs\<close>) and of
  the bit-vector symbols (\<open>ns\<close>); \<open>None\<close> for a term outside the fragment of constants,
  symbols, \<open>Not\<close>, \<open>And\<close>, \<open>Or\<close>, \<open>==\<close> and \<open>!=\<close>.
\<close>

datatype val = VB bool | VN int

fun all_bools :: "val option list \<Rightarrow> bool list option" where
  "all_bools [] = Some []"
| "all_bools (Some (VB b) # vs) = (case all_bools vs of None \<Rightarrow> None | Some bs \<Rightarrow> Some (b # bs))"
| "all_bools (v # vs) = None"

fun eval :: "(string \<Rightarrow> bool) \<Rightarrow> (string \<Rightarrow> int) \<Rightarrow> ast \<Rightarrow> val option" where
  "eval bs ns (BoolV b) = Some (VB b)"
| "eval bs ns (BoolS n) = Some (VB (bs n))"
| "eval bs ns (BVV v w) = Some (VN (v mod 2 ^ w))"
| "eval bs ns (BVS n w) = Some (VN (ns n mod 2 ^ w))"
| "eval bs ns (Op n xs) =
    (if n = ''Not'' then
       (case map (eval bs ns) xs of [Some (VB b)] \<Rightarrow> Some (VB (\<not> b)) | _ \<Rightarrow> None)
     else if n = ''And'' then
       (case all_bools (map (eval bs ns) xs) of None \<Rightarrow> None | Some vs \<Rightarrow> Some (VB (list_all id vs)))
     else if n = ''Or'' then
       (case all_bools (map (eval bs ns) xs) of None \<Rightarrow> None | Some vs \<Rightarrow> Some (VB (list_ex id vs)))
     else if n = ''__eq__'' then
       (case map (eval bs ns) xs of [Some a, Some b] \<Rightarrow> Some (VB (a = b)) | _ \<Rightarrow> None)
     else if n = ''__ne__'' then
       (case map (eval bs ns) xs of [Some a, Some b] \<Rightarrow> Some (VB (a \<noteq> b)) | _ \<Rightarrow> None)
     else None)"

text \<open>A condition holds under an assignment; a list of constraints is satisfiable.\<close>

definition holds :: "(string \<Rightarrow> bool) \<Rightarrow> (string \<Rightarrow> int) \<Rightarrow> ast \<Rightarrow> bool" where
  "holds bs ns c = (eval bs ns c = Some (VB True))"

definition unsatisfiable :: "ast list \<Rightarrow> bool" where
  "unsatisfiable cs = (\<forall>bs ns. \<not> list_all (holds bs ns) cs)"

text \<open>
  Example collaborators, for evaluating the passes on concrete conditions: constructors
  that build the term as it is written, constructors that drop a doubled negation as they
  build, and a truth-table solver for conditions over boolean symbols.
\<close>

definition plain_op :: claripy_op where
  "plain_op n xs = Op n xs"

definition folding_op :: claripy_op where
  "folding_op n xs =
    (if n = ''Not'' then
       (case xs of
          [Op m [x]] \<Rightarrow> if m = ''Not'' then x else Op n xs
        | _ \<Rightarrow> Op n xs)
     else Op n xs)"

fun bool_symbols :: "ast \<Rightarrow> string list" where
  "bool_symbols (BoolS n) = [n]"
| "bool_symbols (Op n xs) = concat (map bool_symbols xs)"
| "bool_symbols c = []"

fun assignments :: "string list \<Rightarrow> (string \<Rightarrow> bool) list" where
  "assignments [] = [\<lambda>n. False]"
| "assignments (v # vs) = concat (map (\<lambda>f. [f, f(v := True)]) (assignments vs))"

definition truth_table_sat :: "ast list \<Rightarrow> bool" where
  "truth_table_sat cs =
    list_ex (\<lambda>bs. list_all (holds bs (\<lambda>n. 0)) cs)
      (assignments (remdups (concat (map bool_symbols cs))))"

definition string_code :: "string \<Rightarrow> int" where
  "string_code s = fold (\<lambda>c h. h * 256 + int (of_char c)) s 1"

fun example_hash :: "ast \<Rightarrow> int" where
  "example_hash (BoolV b) = (if b then 1 else 0)"
| "example_hash (BoolS n) = 2 + 5 * string_code n"
| "example_hash (BVV v w) = 3 + 5 * (\<bar>v\<bar> * 1024 + int w)"
| "example_hash (BVS n w) = 4 + 5 * (string_code n * 1024 + int w)"
| "example_hash (Op n xs) =
    5 + 5 * fold (\<lambda>h acc. acc * 7919 + h) (map example_hash xs) (string_code n)"

definition example_library :: library where
  "example_library =
    \<lparr>lib_op = folding_op, lib_hash = example_hash, lib_simplify_logic = (\<lambda>e. e),
     lib_satisfiable = truth_table_sat, lib_recursion_limit = 1000\<rparr>"

definition plain_library :: library where
  "plain_library = example_library\<lparr>lib_op := plain_op\<rparr>"

section \<open>AIL expressions and their translation\<close>

text \<open>Python's \<open>str\<close> and \<open>hex\<close> formatting of integers.\<close>

definition digit_char :: "int \<Rightarrow> char" where
  "digit_char d = ''0123456789abcdef'' ! nat (d mod 16)"

function digits_of :: "int \<Rightarrow> int \<Rightarrow> string" where
  "digits_of b n =
    (if b < 2 \<or> n < b then [digit_char n]
     else digits_of b (n div b) @ [digit_char (n mod b)])"
  by pat_completeness auto
termination
  by (relation "measure (\<lambda>(b, n). nat n)") (auto simp: int_div_less_self)

definition str_int :: "int \<Rightarrow> string" where
  "str_int i = (if i < 0 then ''-'' @ digits_of 10 (- i) else digits_of 10 i)"

definition format_x :: "int \<Rightarrow> string" where
  "format_x i = (if i < 0 then ''-'' @ digits_of 16 (- i) else digits_of 16 i)"

definition hex :: "int \<Rightarrow> string" where
  "hex i = (if i < 0 then ''-0x'' @ digits_of 16 (- i) else ''0x'' @ digits_of 16 i)"

definition str_opt_int :: "int option \<Rightarrow> string" where
  "str_opt_int i = (case i of None \<Rightarrow> ''None'' | Some v \<Rightarrow> str_int v)"

text \<open>
  AIL expressions, as far as the translation tells them apart. Every expression has a
  width \<open>bits\<close>; an operator expression has its tags. A \<open>Const\<close> holds \<open>True\<close>, \<open>False\<close> or a
  number. \<open>Register\<close>, \<open>Load\<close> and \<open>VirtualVariable\<close> carry the identifier of their
  variable, when they have one, and their \<open>idx\<close>. A \<open>BinaryOp\<close> stores \<open>op\<close> and
  \<open>verbose_op\<close>; for a \<open>UnaryOp\<close> the two are the same. \<open>Call\<close> is the call statement used as
  an expression, and \<open>Claripy\<close> a condition that is a claripy term already.
\<close>

type_synonym tags = "(string \<times> int) list"

datatype const_value = CBool bool | CInt int

datatype ail_expr =
    Claripy ast
  | Const const_value nat
  | Tmp nat nat
  | Register int "string option" "int option" nat
  | Load ail_expr "string option" "int option" nat
  | VirtualVariable int "string option" "int option" nat
  | Convert nat nat ail_expr
  | VEXCCallExpression string "ail_expr list" nat
  | BasePointerOffset int nat
  | ITE ail_expr ail_expr ail_expr nat
  | Call string tags nat
  | MultiStatementExpression int nat
  | UnaryOp string ail_expr nat tags
  | BinaryOp string string ail_expr ail_expr nat tags

fun bits :: "ail_expr \<Rightarrow> nat" where
  "bits (Claripy a) = 0"
| "bits (Const v b) = b"
| "bits (Tmp i b) = b"
| "bits (Register r v i b) = b"
| "bits (Load a v i b) = b"
| "bits (VirtualVariable r v i b) = b"
| "bits (Convert f t e) = t"
| "bits (VEXCCallExpression c xs b) = b"
| "bits (BasePointerOffset off b) = b"
| "bits (ITE c t f b) = b"
| "bits (Call t tg b) = b"
| "bits (MultiStatementExpression i b) = b"
| "bits (UnaryOp opn e b tg) = b"
| "bits (BinaryOp opn vop e0 e1 b tg) = b"

text \<open>
  The statements that end a block, and the nodes of a region graph: AIL blocks and the
  structurer's nodes. Every node has an address.
\<close>

datatype stmt =
    Jump ail_expr int
  | ConditionalJump ail_expr "ail_expr option" "ail_expr option" int
  | Statement string

datatype node =
    AilBlock int "int option" "stmt list"
  | SequenceNode int "node list"
  | CodeNode node
  | MultiNode int "node list"
  | LoopNode int "node option"
  | ConditionalBreakNode int ast int
  | ConditionNode int "node option" "node option"
  | CascadingConditionNode int "node list" "node option"
  | BreakNode int
  | ContinueNode int
  | SwitchCaseNode int
  | IncompleteSwitchCaseNode int
  | GraphRegion int
  | Block int
  | BlockNode int

fun addr :: "node \<Rightarrow> int" where
  "addr (AilBlock a i ss) = a"
| "addr (SequenceNode a ns) = a"
| "addr (CodeNode n) = addr n"
| "addr (MultiNode a ns) = a"
| "addr (LoopNode a n) = a"
| "addr (ConditionalBreakNode a c t) = a"
| "addr (ConditionNode a t f) = a"
| "addr (CascadingConditionNode a ns e) = a"
| "addr (BreakNode a) = a"
| "addr (ContinueNode a) = a"
| "addr (SwitchCaseNode a) = a"
| "addr (IncompleteSwitchCaseNode a) = a"
| "addr (GraphRegion a) = a"
| "addr (Block a) = a"
| "addr (BlockNode a) = a"

text \<open>
  A region graph: its nodes in iteration order and its edges in insertion order, each with
  the \<open>type\<close> attribute of its data when it has one. The order in which networkx lists the
  successors or predecessors of a node is taken to be the order of the edge list.
\<close>

record graph =
  nodes_of :: "node list"
  edges_of :: "(node \<times> node \<times> string option) list"

definition successors :: "graph \<Rightarrow> node \<Rightarrow> node list" where
  "successors g n = map (\<lambda>e. fst (snd e)) (filter (\<lambda>e. fst e = n) (edges_of g))"

definition predecessors :: "graph \<Rightarrow> node \<Rightarrow> node list" where
  "predecessors g n = map fst (filter (\<lambda>e. fst (snd e) = n) (edges_of g))"

definition in_degree :: "graph \<Rightarrow> node \<Rightarrow> nat" where
  "in_degree g n = length (predecessors g n)"

definition out_degree :: "graph \<Rightarrow> node \<Rightarrow> nat" where
  "out_degree g n = length (successors g n)"

text \<open>\<open>graph.get_edge_data(src, dst)\<close> followed by \<open>.get("type", "transition")\<close>.\<close>

definition edge_type_of :: "graph \<Rightarrow> node \<Rightarrow> node \<Rightarrow> string" where
  "edge_type_of g src dst =
    (case filter (\<lambda>e. fst e = src \<and> fst (snd e) = dst) (edges_of g) of
       [] \<Rightarrow> ''transition''
     | e # rest \<Rightarrow> (case snd (snd e) of None \<Rightarrow> ''transition'' | Some t \<Rightarrow> t))"

record region =
  head :: node
  region_graph :: graph
  graph_with_successors :: "graph option"

text \<open>
  The collaborators of the translation and of the graph analyses, next to the ones of the
  simplification passes:
  \<^item> \<open>env_repr\<close>: \<open>repr\<close> of an AIL expression; \<open>env_ast_repr\<close>: \<open>repr\<close> of a claripy term;
  \<^item> \<open>env_hash_expr\<close>: \<open>hash\<close> of an AIL expression;
  \<^item> \<open>env_size\<close>: \<open>size()\<close> of a bit-vector term that is no leaf;
  \<^item> \<open>env_is_head_controlled_loop_block\<close>: the test of that name in \<open>angr.utils.ail\<close>;
  \<^item> \<open>env_inverted_idoms\<close> and \<open>env_dominates\<close>: \<open>inverted_idoms\<close> and \<open>dominates\<close> of
    \<open>angr.utils.graph\<close>; the first returns the inverted graph and the immediate
    post-dominators, which may be \<open>None\<close>;
  \<^item> \<open>env_quasi_topological_sort_nodes\<close>: \<open>GraphUtils.quasi_topological_sort_nodes\<close>;
  \<^item> \<open>env_dfs_tree\<close> and \<open>env_has_path\<close>: the nodes of \<open>networkx.dfs_tree(g, n)\<close> and
    \<open>networkx.has_path(g, a, b)\<close>.
\<close>

record env =
  env_lib :: library
  env_repr :: "ail_expr \<Rightarrow> string"
  env_ast_repr :: "ast \<Rightarrow> string"
  env_hash_expr :: "ail_expr \<Rightarrow> int"
  env_size :: "ast \<Rightarrow> nat"
  env_is_head_controlled_loop_block :: "node \<Rightarrow> bool"
  env_inverted_idoms :: "graph \<Rightarrow> graph \<times> (node \<rightharpoonup> node) option"
  env_dominates :: "(node \<rightharpoonup> node) \<Rightarrow> node \<Rightarrow> node \<Rightarrow> bool"
  env_quasi_topological_sort_nodes :: "graph \<Rightarrow> node list"
  env_dfs_tree :: "graph \<Rightarrow> node \<Rightarrow> node list"
  env_has_path :: "graph \<Rightarrow> node \<Rightarrow> node \<Rightarrow> bool"

text \<open>The claripy class of a term (\<open>Bool\<close> or \<open>BV\<close>) and the size of a bit-vector.\<close>

definition bool_operations :: "string list" where
  "bool_operations =
    [''And'', ''Or'', ''Not'', ''__eq__'', ''__ne__'', ''__le__'', ''__lt__'', ''__ge__'', ''__gt__'',
     ''ULT'', ''ULE'', ''UGT'', ''UGE'', ''SLT'', ''SLE'', ''SGT'', ''SGE'']"

fun ast_is_bool :: "ast \<Rightarrow> bool" where
  "ast_is_bool (BoolV b) = True"
| "ast_is_bool (BoolS n) = True"
| "ast_is_bool (BVV v w) = False"
| "ast_is_bool (BVS n w) = False"
| "ast_is_bool (Op n xs) = (n \<in> set bool_operations)"

fun ast_size :: "env \<Rightarrow> ast \<Rightarrow> nat" where
  "ast_size E (BVV v w) = w"
| "ast_size E (BVS n w) = w"
| "ast_size E a = env_size E a"

text \<open>\<open>claripy.BVV(value, size)\<close> keeps the value modulo \<open>2 ** size\<close>.\<close>

definition claripy_BVV :: "int \<Rightarrow> nat \<Rightarrow> ast" where
  "claripy_BVV v w = BVV (v mod 2 ^ w) w"

text \<open>
  \<open>_ail2claripy_op_mapping\<close>. Each lambda of the table is one of seven shapes: a logical
  connective of the two translated operands; a claripy operation on the two operands
  translated with \<open>nobool=True\<close>; a claripy operation on the translated single operand;
  \<open>_op_with_unified_size\<close>; \<open>Concat\<close> of all translated operands; \<open>_dummy_bvs\<close>;
  \<open>_dummy_bools\<close>. The shape keeps the name of the claripy operation.
\<close>

datatype op_translation =
    Logical string
  | Binary string
  | Unary string
  | Shift string
  | ConcatOperands
  | DummyBVS
  | DummyBools

definition ail2claripy_op_mapping :: "(string \<times> op_translation) list" where
  "ail2claripy_op_mapping =
    [(''LogicalAnd'', Logical ''And''), (''LogicalOr'', Logical ''Or''),
     (''CmpEQ'', Binary ''__eq__''), (''CmpNE'', Binary ''__ne__''),
     (''CmpLE'', Binary ''__le__''), (''CmpLE (signed)'', Binary ''SLE''),
     (''CmpLT'', Binary ''__lt__''), (''CmpLT (signed)'', Binary ''SLT''),
     (''CmpGE'', Binary ''__ge__''), (''CmpGE (signed)'', Binary ''SGE''),
     (''CmpGT'', Binary ''__gt__''), (''CmpGT (signed)'', Binary ''SGT''),
     (''CasCmpEQ'', Binary ''__eq__''), (''CasCmpNE'', Binary ''__ne__''),
     (''CasCmpLE'', Binary ''__le__''), (''CasCmpLE (signed)'', Binary ''SLE''),
     (''CasCmpLT'', Binary ''__lt__''), (''CasCmpLT (signed)'', Binary ''SLT''),
     (''CasCmpGE'', Binary ''__ge__''), (''CasCmpGE (signed)'', Binary ''SGE''),
     (''CasCmpGT'', Binary ''__gt__''), (''CasCmpGT (signed)'', Binary ''SGT''),
     (''Add'', Binary ''__add__''), (''Sub'', Binary ''__sub__''), (''Mul'', Binary ''__mul__''),
     (''Div'', Binary ''__floordiv__''), (''Mod'', Binary ''__mod__''),
     (''Not'', Unary ''Not''), (''Neg'', Unary ''__neg__''), (''BitwiseNeg'', Unary ''__invert__''),
     (''Xor'', Binary ''__xor__''), (''And'', Binary ''__and__''), (''Or'', Binary ''__or__''),
     (''Shr'', Shift ''LShR''), (''Shl'', Shift ''__lshift__''), (''Sar'', Shift ''__rshift__''),
     (''Concat'', ConcatOperands),
     (''CmpF'', DummyBVS), (''Mull'', DummyBVS), (''Mull (signed)'', DummyBVS),
     (''Reinterpret'', DummyBVS), (''Rol'', DummyBVS), (''Ror'', DummyBVS),
     (''LogicalXor'', DummyBVS), (''Carry'', DummyBVS), (''SCarry'', DummyBVS),
     (''SBorrow'', DummyBVS), (''ExpCmpNE'', DummyBools), (''CmpORD'', DummyBVS),
     (''CmpEQV'', DummyBVS), (''GetMSBs'', DummyBVS), (''ShlNV'', DummyBVS),
     (''ShrNV'', DummyBVS), (''InterleaveLOV'', DummyBVS), (''InterleaveHIV'', DummyBVS),
     (''_DUMMY_'', DummyBVS)]"

text \<open>
  The lookup of lines 904 to 916: by \<open>verbose_op\<close>, then by \<open>op\<close>, then the catch-all
  \<open>_DUMMY_\<close> entry.
\<close>

definition lookup_translation :: "string \<Rightarrow> string \<Rightarrow> op_translation" where
  "lookup_translation verbose_op opn =
    (case map_of ail2claripy_op_mapping verbose_op of
       Some t \<Rightarrow> t
     | None \<Rightarrow>
         (case map_of ail2claripy_op_mapping opn of
            Some t \<Rightarrow> t
          | None \<Rightarrow> DummyBVS))"

text \<open>
  The state of a \<open>ConditionProcessor\<close>. Python sets are duplicate-free lists. The class
  attribute \<open>EXC_COUNTER\<close> starts at 1000 and becomes an attribute of the instance at the
  first exception edge.
\<close>

record processor =
  arch_bits :: nat
  condition_mapping :: "string \<rightharpoonup> ail_expr"
  jump_table_conds :: "int \<Rightarrow> ast list"
  reaching_conditions :: "node \<rightharpoonup> ast"
  guarding_conditions :: "node \<rightharpoonup> ast"
  ast2annotations :: "ast \<rightharpoonup> tags"
  EXC_COUNTER :: int

text \<open>\<open>ConditionProcessor(arch)\<close> and \<open>clear()\<close>, which leaves \<open>EXC_COUNTER\<close> as it is.\<close>

definition new_processor :: "nat \<Rightarrow> processor" where
  "new_processor b =
    \<lparr>arch_bits = b, condition_mapping = Map.empty, jump_table_conds = (\<lambda>h. []),
     reaching_conditions = Map.empty, guarding_conditions = Map.empty,
     ast2annotations = Map.empty, EXC_COUNTER = 1000\<rparr>"

definition clear :: "processor \<Rightarrow> processor" where
  "clear st =
    st\<lparr>condition_mapping := Map.empty, jump_table_conds := (\<lambda>h. []),
       reaching_conditions := Map.empty, guarding_conditions := Map.empty,
       ast2annotations := Map.empty\<rparr>"

text \<open>\<open>_dummy_bvs\<close> and \<open>_dummy_bools\<close>.\<close>

definition dummy_bvs :: "env \<Rightarrow> ail_expr \<Rightarrow> string \<Rightarrow> processor \<Rightarrow> ast \<times> processor" where
  "dummy_bvs E condition name_suffix st =
    (let name = ''ailexpr_'' @ env_repr E condition @ name_suffix
     in (BVS name (bits condition),
         st\<lparr>condition_mapping := (condition_mapping st)(name \<mapsto> condition)\<rparr>))"

definition dummy_bools :: "env \<Rightarrow> ail_expr \<Rightarrow> string \<Rightarrow> processor \<Rightarrow> ast \<times> processor" where
  "dummy_bools E condition name_suffix st =
    (let name = ''ailexpr_'' @ env_repr E condition @ name_suffix
     in (BoolS name,
         st\<lparr>condition_mapping := (condition_mapping st)(name \<mapsto> condition)\<rparr>))"

text \<open>
  The \<open>Convert\<close> case of the translation, after its operand has been translated to \<open>v\<close>:
  a one-bit conversion requested as a boolean becomes a boolean symbol, any other a
  bit-vector symbol, each named after the hash of \<open>v\<close>.
\<close>

definition convert_symbol ::
    "env \<Rightarrow> ail_expr \<Rightarrow> nat \<Rightarrow> nat \<Rightarrow> bool \<Rightarrow> ast \<Rightarrow> processor \<Rightarrow> ast \<times> processor" where
  "convert_symbol E condition from_bits to_bits nobool v st =
    (let body = ''Conv('' @ str_int (int from_bits) @ ''->'' @ str_int (int to_bits) @ '', ''
                  @ str_int (lib_hash (env_lib E) v) @ '')'';
         var = (if to_bits = 1 \<and> \<not> nobool then BoolS (''ailcond_'' @ body)
                else BVS (''ailexpr_'' @ body) to_bits);
         name = (if to_bits = 1 \<and> \<not> nobool then ''ailcond_'' @ body else ''ailexpr_'' @ body)
     in (var, st\<lparr>condition_mapping := (condition_mapping st)(name \<mapsto> condition)\<rparr>))"

text \<open>
  The end of the translation of an operator expression (lines 919 to 940), given the term
  \<open>r\<close> that the table's lambda returned. A boolean where none is wanted becomes a one-bit
  symbol; the tags are kept; a one-bit vector where a boolean is required becomes a
  boolean constant or symbol. The library's constructors always return a term, so the
  test \<open>r is NotImplemented\<close> fails. \<open>r.args[0]\<close> is the name of a symbol and the first
  argument of any other term.
\<close>

definition first_arg_str :: "env \<Rightarrow> ast \<Rightarrow> error + string" where
  "first_arg_str E r =
    (case r of
       BVS n w \<Rightarrow> Inr n
     | BoolS n \<Rightarrow> Inr n
     | BVV v w \<Rightarrow> Inr (str_int v)
     | BoolV b \<Rightarrow> Inr (if b then ''True'' else ''False'')
     | Op n xs \<Rightarrow> (case xs of [] \<Rightarrow> Inl IndexError | x # rest \<Rightarrow> Inr (env_ast_repr E x)))"

definition finish_translation ::
    "env \<Rightarrow> ail_expr \<Rightarrow> tags \<Rightarrow> bool \<Rightarrow> bool \<Rightarrow> ast \<Rightarrow> processor \<Rightarrow> error + (ast \<times> processor)" where
  "finish_translation E condition tg nobool must_bool r st =
    (let (r1, st1) =
           (if ast_is_bool r \<and> nobool then
              (let name = ''ailexpr_from_bool_'' @ env_ast_repr E r
               in (BVS name 1, st\<lparr>condition_mapping := (condition_mapping st)(name \<mapsto> condition)\<rparr>))
            else (r, st));
         st2 = st1\<lparr>ast2annotations := (ast2annotations st1)(r1 \<mapsto> tg)\<rparr>
     in if \<not> ast_is_bool r1 \<and> ast_size E r1 = 1 \<and> must_bool then
          (case r1 of
             BVV v w \<Rightarrow> Inr (if v = 0 then BoolV False else BoolV True, st2)
           | _ \<Rightarrow>
               (case first_arg_str E r1 of
                  Inl e \<Rightarrow> Inl e
                | Inr n \<Rightarrow>
                    Inr (BoolS (''bool_from_bv1_'' @ n),
                         st2\<lparr>condition_mapping :=
                               (condition_mapping st2)(''bool_from_bv1_'' @ n \<mapsto> condition)\<rparr>)))
        else Inr (r1, st2))"

text \<open>
  \<open>claripy_ast_from_ail_condition(condition, nobool, must_bool, ins_addr)\<close>. The processor
  is threaded through: the translation writes to \<open>_condition_mapping\<close> and
  \<open>_ast2annotations\<close>. A lambda of the table applied to an expression of the wrong arity
  raises where Python does: \<open>expr.operand\<close> of a binary operation is an AttributeError and
  \<open>expr.operands[1]\<close> of a unary operation an IndexError. An integer operand handed to a
  claripy operation is coerced by claripy to a constant of the size of the other operand.
\<close>

definition symbol_suffix :: "string option \<Rightarrow> int option \<Rightarrow> int \<Rightarrow> string" where
  "symbol_suffix variable idx ins_addr =
    ''-'' @ (case variable of Some ident \<Rightarrow> ident | None \<Rightarrow> str_opt_int idx)
      @ ''-'' @ format_x ins_addr"

definition const_int :: "const_value \<Rightarrow> int" where
  "const_int v = (case v of CBool b \<Rightarrow> (if b then 1 else 0) | CInt i \<Rightarrow> i)"

fun claripy_ast_from_ail_condition ::
    "env \<Rightarrow> ail_expr \<Rightarrow> bool \<Rightarrow> bool \<Rightarrow> int \<Rightarrow> processor \<Rightarrow> error + (ast \<times> processor)"
where
  "claripy_ast_from_ail_condition E (Claripy a) nobool must_bool ia st = Inr (a, st)"
| "claripy_ast_from_ail_condition E (VEXCCallExpression c xs b) nobool must_bool ia st =
    Inr (dummy_bvs E (VEXCCallExpression c xs b) [] st)"
| "claripy_ast_from_ail_condition E (BasePointerOffset off b) nobool must_bool ia st =
    Inr (dummy_bvs E (BasePointerOffset off b) [] st)"
| "claripy_ast_from_ail_condition E (ITE c t f b) nobool must_bool ia st =
    Inr (dummy_bvs E (ITE c t f b) [] st)"
| "claripy_ast_from_ail_condition E (Call t tg b) nobool must_bool ia st =
    Inr (dummy_bvs E (Call t tg b)
           (hex (case map_of tg ''ins_addr'' of None \<Rightarrow> 0 | Some a \<Rightarrow> a)) st)"
| "claripy_ast_from_ail_condition E (Load a v i b) nobool must_bool ia st =
    (let name = ''ailexpr_'' @ env_repr E (Load a v i b) @ symbol_suffix v i ia
     in Inr (BVS name b, st\<lparr>condition_mapping := (condition_mapping st)(name \<mapsto> Load a v i b)\<rparr>))"
| "claripy_ast_from_ail_condition E (Register r v i b) nobool must_bool ia st =
    (let name = ''ailexpr_'' @ env_repr E (Register r v i b) @ symbol_suffix v i ia
     in Inr (BVS name b, st\<lparr>condition_mapping := (condition_mapping st)(name \<mapsto> Register r v i b)\<rparr>))"
| "claripy_ast_from_ail_condition E (VirtualVariable r v i b) nobool must_bool ia st =
    (let name = ''ailexpr_'' @ env_repr E (VirtualVariable r v i b) @ symbol_suffix v i ia
     in Inr (BVS name b,
             st\<lparr>condition_mapping := (condition_mapping st)(name \<mapsto> VirtualVariable r v i b)\<rparr>))"
| "claripy_ast_from_ail_condition E (Convert f t e) nobool must_bool ia st =
    (case claripy_ast_from_ail_condition E e False False ia st of
       Inl err \<Rightarrow> Inl err
     | Inr (v, st1) \<Rightarrow> Inr (convert_symbol E (Convert f t e) f t nobool v st1))"
| "claripy_ast_from_ail_condition E (Const v b) nobool must_bool ia st =
    (case v of
       CBool t \<Rightarrow> Inr (BoolV t, st)
     | CInt i \<Rightarrow>
         if b = 1 then Inr (if i mod 2 = 1 then BoolV True else BoolV False, st)
         else Inr (claripy_BVV i b, st))"
| "claripy_ast_from_ail_condition E (Tmp i b) nobool must_bool ia st =
    (let name = ''ailtmp_'' @ str_int (int i)
     in Inr (if b = 1 then BoolS name else BVS name b,
             st\<lparr>condition_mapping := (condition_mapping st)(name \<mapsto> Tmp i b)\<rparr>))"
| "claripy_ast_from_ail_condition E (MultiStatementExpression i b) nobool must_bool ia st =
    (let name = ''mstmtexpr_'' @ str_int (env_hash_expr E (MultiStatementExpression i b))
     in Inr (if b = 1 then BoolS name else BVS name b,
             st\<lparr>condition_mapping :=
                  (condition_mapping st)(name \<mapsto> MultiStatementExpression i b)\<rparr>))"
| "claripy_ast_from_ail_condition E (UnaryOp opn e b tg) nobool must_bool ia st =
    (case
       (case lookup_translation opn opn of
          Unary cop \<Rightarrow>
            (case claripy_ast_from_ail_condition E e False False ia st of
               Inl err \<Rightarrow> Inl err
             | Inr (a, st1) \<Rightarrow> Inr (lib_op (env_lib E) cop [a], st1))
        | Logical cop \<Rightarrow>
            (case claripy_ast_from_ail_condition E e False False ia st of
               Inl err \<Rightarrow> Inl err
             | Inr (a, st1) \<Rightarrow> Inl IndexError)
        | Binary cop \<Rightarrow>
            (case claripy_ast_from_ail_condition E e True False ia st of
               Inl err \<Rightarrow> Inl err
             | Inr (a, st1) \<Rightarrow> Inl IndexError)
        | Shift cop \<Rightarrow> Inl IndexError
        | ConcatOperands \<Rightarrow>
            (case claripy_ast_from_ail_condition E e False False ia st of
               Inl err \<Rightarrow> Inl err
             | Inr (a, st1) \<Rightarrow> Inr (lib_op (env_lib E) ''Concat'' [a], st1))
        | DummyBVS \<Rightarrow> Inr (dummy_bvs E (UnaryOp opn e b tg) [] st)
        | DummyBools \<Rightarrow> Inr (dummy_bools E (UnaryOp opn e b tg) [] st))
     of
       Inl err \<Rightarrow> Inl err
     | Inr (r, st') \<Rightarrow> finish_translation E (UnaryOp opn e b tg) tg nobool must_bool r st')"
| "claripy_ast_from_ail_condition E (BinaryOp opn vop e0 e1 b tg) nobool must_bool ia st =
    (case
       (case lookup_translation vop opn of
          Logical cop \<Rightarrow>
            (case claripy_ast_from_ail_condition E e0 False False ia st of
               Inl err \<Rightarrow> Inl err
             | Inr (a0, st1) \<Rightarrow>
                 (case claripy_ast_from_ail_condition E e1 False False ia st1 of
                    Inl err \<Rightarrow> Inl err
                  | Inr (a1, st2) \<Rightarrow> Inr (lib_op (env_lib E) cop [a0, a1], st2)))
        | Binary cop \<Rightarrow>
            (case claripy_ast_from_ail_condition E e0 True False ia st of
               Inl err \<Rightarrow> Inl err
             | Inr (a0, st1) \<Rightarrow>
                 (case claripy_ast_from_ail_condition E e1 True False ia st1 of
                    Inl err \<Rightarrow> Inl err
                  | Inr (a1, st2) \<Rightarrow> Inr (lib_op (env_lib E) cop [a0, a1], st2)))
        | Unary cop \<Rightarrow> Inl AttributeError
        | Shift cop \<Rightarrow>
            (case e1 of
               Const v w \<Rightarrow>
                 (case claripy_ast_from_ail_condition E e0 True False ia st of
                    Inl err \<Rightarrow> Inl err
                  | Inr (a0, st1) \<Rightarrow>
                      Inr (lib_op (env_lib E) cop [a0, claripy_BVV (const_int v) (ast_size E a0)], st1))
             | _ \<Rightarrow>
                 if bits e1 = bits e0 then
                   (case claripy_ast_from_ail_condition E e0 True False ia st of
                      Inl err \<Rightarrow> Inl err
                    | Inr (a0, st1) \<Rightarrow>
                        (case claripy_ast_from_ail_condition E e1 False False ia st1 of
                           Inl err \<Rightarrow> Inl err
                         | Inr (a1, st2) \<Rightarrow> Inr (lib_op (env_lib E) cop [a0, a1], st2)))
                 else if \<not> bits e1 < bits e0 then Inl AssertionError
                 else
                   (case claripy_ast_from_ail_condition E e0 True False ia st of
                      Inl err \<Rightarrow> Inl err
                    | Inr (a0, st1) \<Rightarrow>
                        (case claripy_ast_from_ail_condition E e1 False False ia st1 of
                           Inl err \<Rightarrow> Inl err
                         | Inr (v, st2) \<Rightarrow>
                             (case convert_symbol E (Convert (bits e1) (bits e0) e1)
                                     (bits e1) (bits e0) True v st2 of
                                (a1, st3) \<Rightarrow> Inr (lib_op (env_lib E) cop [a0, a1], st3)))))
        | ConcatOperands \<Rightarrow>
            (case claripy_ast_from_ail_condition E e0 False False ia st of
               Inl err \<Rightarrow> Inl err
             | Inr (a0, st1) \<Rightarrow>
                 (case claripy_ast_from_ail_condition E e1 False False ia st1 of
                    Inl err \<Rightarrow> Inl err
                  | Inr (a1, st2) \<Rightarrow> Inr (lib_op (env_lib E) ''Concat'' [a0, a1], st2)))
        | DummyBVS \<Rightarrow> Inr (dummy_bvs E (BinaryOp opn vop e0 e1 b tg) [] st)
        | DummyBools \<Rightarrow> Inr (dummy_bools E (BinaryOp opn vop e0 e1 b tg) [] st))
     of
       Inl err \<Rightarrow> Inl err
     | Inr (r, st') \<Rightarrow>
         finish_translation E (BinaryOp opn vop e0 e1 b tg) tg nobool must_bool r st')"

section \<open>Edge predicates\<close>

text \<open>
  \<open>get_last_statement(block)\<close>: the statement, \<open>None\<close>, or an exception. The loops over
  \<open>reversed(block.nodes)\<close> are written as recursions over the list that look at its tail
  first. A \<open>LoopNode\<close> without a sequence node meets no branch of the type dispatch.
\<close>

fun get_last_statement :: "node \<Rightarrow> error + stmt option"
  and last_statement_of_sequence :: "node list \<Rightarrow> error + stmt option"
  and last_statement_of_multi :: "node list \<Rightarrow> error + stmt option"
  and last_statement_of_cascade :: "node list \<Rightarrow> error + stmt option"
where
  "get_last_statement (SequenceNode a ns) = last_statement_of_sequence ns"
| "get_last_statement (CodeNode n) = get_last_statement n"
| "get_last_statement (AilBlock a i ss) =
    (if ss = [] then Inl EmptyBlockNotice else Inr (Some (last ss)))"
| "get_last_statement (Block a) = Inl NotImplementedError"
| "get_last_statement (BlockNode a) = Inl NotImplementedError"
| "get_last_statement (MultiNode a ns) = last_statement_of_multi ns"
| "get_last_statement (LoopNode a sn) =
    (case sn of None \<Rightarrow> Inl NotImplementedError | Some n \<Rightarrow> get_last_statement n)"
| "get_last_statement (ConditionalBreakNode a c t) = Inr None"
| "get_last_statement (ConditionNode a tn fn) =
    (case (case tn of
             None \<Rightarrow> Inr None
           | Some n \<Rightarrow>
               (case get_last_statement n of
                  Inl e \<Rightarrow> if e = EmptyBlockNotice then Inr None else Inl e
                | Inr s \<Rightarrow> Inr s)) of
       Inl e \<Rightarrow> Inl e
     | Inr (Some s) \<Rightarrow> Inr (Some s)
     | Inr None \<Rightarrow> (case fn of None \<Rightarrow> Inr None | Some n \<Rightarrow> get_last_statement n))"
| "get_last_statement (CascadingConditionNode a ns en) =
    (case en of
       Some n \<Rightarrow> get_last_statement n
     | None \<Rightarrow> last_statement_of_cascade ns)"
| "get_last_statement (BreakNode a) = Inr None"
| "get_last_statement (ContinueNode a) = Inr None"
| "get_last_statement (SwitchCaseNode a) = Inr None"
| "get_last_statement (IncompleteSwitchCaseNode a) = Inr None"
| "get_last_statement (GraphRegion a) = Inr None"
| "last_statement_of_sequence [] = Inl EmptyBlockNotice"
| "last_statement_of_sequence [n] = get_last_statement n"
| "last_statement_of_sequence (n # m # ns) = last_statement_of_sequence (m # ns)"
| "last_statement_of_multi [] = Inl EmptyBlockNotice"
| "last_statement_of_multi (n # ns) =
    (case last_statement_of_multi ns of
       Inl e \<Rightarrow> if e = EmptyBlockNotice then get_last_statement n else Inl e
     | Inr s \<Rightarrow> Inr s)"
| "last_statement_of_cascade [] = Inr None"
| "last_statement_of_cascade (n # ns) =
    (case last_statement_of_cascade ns of
       Inl e \<Rightarrow> Inl e
     | Inr (Some s) \<Rightarrow> Inr (Some s)
     | Inr None \<Rightarrow> get_last_statement n)"

text \<open>
  The statement that decides the edges out of a block (lines 691 to 697): for a
  head-controlled loop block, the first conditional jump among all statements but the
  last, which the code asserts to exist; otherwise the last statement.
\<close>

fun is_conditional_jump :: "stmt \<Rightarrow> bool" where
  "is_conditional_jump (ConditionalJump c t f ia) = True"
| "is_conditional_jump s = False"

definition deciding_statement :: "env \<Rightarrow> node \<Rightarrow> error + stmt option" where
  "deciding_statement E src_block =
    (case src_block of
       AilBlock a i ss \<Rightarrow>
         if ss \<noteq> [] \<and> env_is_head_controlled_loop_block E src_block then
           (case filter is_conditional_jump (butlast ss) of
              [] \<Rightarrow> Inl AssertionError
            | s # rest \<Rightarrow> Inr (Some s))
         else get_last_statement src_block
     | _ \<Rightarrow> get_last_statement src_block)"

text \<open>\<open>_extract_predicate(src_block, dst_block, edge_type)\<close>.\<close>

definition extract_predicate ::
    "env \<Rightarrow> node \<Rightarrow> node \<Rightarrow> string \<Rightarrow> processor \<Rightarrow> error + (ast \<times> processor)" where
  "extract_predicate E src_block dst_block edge_type st =
    (if edge_type = ''exception'' then
       (let c = EXC_COUNTER st + 1
        in claripy_ast_from_ail_condition E
             (BinaryOp ''CmpEQ'' ''CmpEQ'' (Register c None (Some (4194304 + c)) 64)
                (Const (CInt c) 64) 1 [])
             False False (addr dst_block) (st\<lparr>EXC_COUNTER := c\<rparr>))
     else
       (case src_block of
          ConditionalBreakNode a bool_var target \<Rightarrow>
            if target = addr dst_block then Inr (bool_var, st)
            else Inr (lib_op (env_lib E) ''Not'' [bool_var], st)
        | GraphRegion a \<Rightarrow> Inr (BoolV True, st)
        | _ \<Rightarrow>
            (case deciding_statement E src_block of
               Inl e \<Rightarrow> Inl e
             | Inr None \<Rightarrow> Inr (BoolV True, st)
             | Inr (Some (Jump target ia)) \<Rightarrow>
                 (case target of
                    Const v w \<Rightarrow> Inr (BoolV True, st)
                  | _ \<Rightarrow>
                      (case claripy_ast_from_ail_condition E target False False ia st of
                         Inl e \<Rightarrow> Inl e
                       | Inr (target_ast, st1) \<Rightarrow>
                           Inr (lib_op (env_lib E) ''__eq__''
                                  [target_ast, claripy_BVV (addr dst_block) (ast_size E target_ast)],
                                st1)))
             | Inr (Some (ConditionalJump condition true_target false_target ia)) \<Rightarrow>
                 (case claripy_ast_from_ail_condition E condition False True ia st of
                    Inl e \<Rightarrow> Inl e
                  | Inr (bool_var, st1) \<Rightarrow>
                      (case true_target of
                         Some (Const v w) \<Rightarrow>
                           if const_int v = addr dst_block then Inr (bool_var, st1)
                           else Inr (lib_op (env_lib E) ''Not'' [bool_var], st1)
                       | _ \<Rightarrow> Inr (lib_op (env_lib E) ''Not'' [bool_var], st1)))
             | Inr (Some (Statement d)) \<Rightarrow> Inr (BoolV True, st))))"

text \<open>
  \<open>recover_edge_condition(graph, src, dst)\<close>: an \<open>EmptyBlockNotice\<close> is caught and the
  predicate is \<open>true\<close>. The notice can only come from \<open>get_last_statement\<close>, before the
  processor has been written to.
\<close>

definition recover_edge_condition ::
    "env \<Rightarrow> graph \<Rightarrow> node \<Rightarrow> node \<Rightarrow> processor \<Rightarrow> error + (ast \<times> processor)" where
  "recover_edge_condition E g src dst st =
    (case extract_predicate E src dst (edge_type_of g src dst) st of
       Inl e \<Rightarrow> if e = EmptyBlockNotice then Inr (BoolV True, st) else Inl e
     | Inr r \<Rightarrow> Inr r)"

text \<open>
  \<open>recover_edge_conditions(region, graph)\<close>: every node in turn, every successor of it in
  turn. \<open>graph or region.graph\<close> takes the region's graph when no graph is given or the
  given one has no node.
\<close>

fun recover_conditions_of_edges ::
    "env \<Rightarrow> graph \<Rightarrow> (node \<times> node) list \<Rightarrow> ((node \<times> node) \<rightharpoonup> ast) \<Rightarrow> processor
      \<Rightarrow> error + (((node \<times> node) \<rightharpoonup> ast) \<times> processor)" where
  "recover_conditions_of_edges E g [] edge_conditions st = Inr (edge_conditions, st)"
| "recover_conditions_of_edges E g ((src, dst) # es) edge_conditions st =
    (case recover_edge_condition E g src dst st of
       Inl e \<Rightarrow> Inl e
     | Inr (predicate, st1) \<Rightarrow>
         recover_conditions_of_edges E g es (edge_conditions((src, dst) \<mapsto> predicate)) st1)"

definition given_graph :: "graph option \<Rightarrow> graph option" where
  "given_graph go = (case go of None \<Rightarrow> None | Some g \<Rightarrow> if nodes_of g = [] then None else Some g)"

definition recover_edge_conditions ::
    "env \<Rightarrow> region \<Rightarrow> graph option \<Rightarrow> processor
      \<Rightarrow> error + (((node \<times> node) \<rightharpoonup> ast) \<times> processor)" where
  "recover_edge_conditions E r go st =
    (let g = (case given_graph go of None \<Rightarrow> region_graph r | Some g' \<Rightarrow> g')
     in recover_conditions_of_edges E g
          (concat (map (\<lambda>src. map (\<lambda>dst. (src, dst)) (successors g src)) (nodes_of g)))
          Map.empty st)"

section \<open>Reaching conditions\<close>

text \<open>
  \<open>_remove_crossing_edges_between_cases(graph, case_entry_to_switch_head)\<close>. The map from
  case entries to switch heads is an association list; \<open>None\<close> and the empty dictionary
  are the empty list. The breadth-first walk marks a node as traversed when it takes it
  from the queue; a successor that is traversed already loses its edge when it has
  successors of its own, a successor that is a starting node loses its edge, and any other
  successor joins the queue. The starting nodes are visited in the order of the graph.
\<close>

function traverse_cases ::
    "graph \<Rightarrow> node list \<Rightarrow> node list \<Rightarrow> node list \<Rightarrow> (node \<times> node) list
      \<Rightarrow> node list \<times> (node \<times> node) list" where
  "traverse_cases g starting_nodes [] traversed_nodes edges_to_remove =
    (traversed_nodes, edges_to_remove)"
| "traverse_cases g starting_nodes (src # queue) traversed_nodes edges_to_remove =
    (let traversed = List.insert src traversed_nodes;
         succs = successors g src;
         removed = filter (\<lambda>succ. if succ \<in> set traversed then 0 < out_degree g succ
                                   else succ \<in> set starting_nodes) succs;
         queued = filter (\<lambda>succ. succ \<notin> set traversed \<and> succ \<notin> set starting_nodes) succs
     in traverse_cases g starting_nodes (queue @ queued) traversed
          (fold (\<lambda>succ er. List.insert (src, succ) er) removed edges_to_remove))"
  by pat_completeness auto

termination traverse_cases
proof (relation
    "(\<lambda>(g, starts, queue, tr, er).
        card ((set queue \<union> set (map (\<lambda>e. fst (snd e)) (edges_of g))) - set tr))
     <*mlex*> measure (\<lambda>(g, starts, queue, tr, er). length (filter (\<lambda>n. n \<in> set tr) queue))",
    goal_cases)
  case 1
  show ?case by (simp add: wf_mlex)
next
  case (2 g starts src queue tr er traversed succs removed queued)
  let ?T = "set (map (\<lambda>e. fst (snd e)) (edges_of g))"
  have q: "set queued \<subseteq> ?T" "set queued \<inter> set traversed = {}"
    using 2 by (auto simp: successors_def)
  have tr: "set traversed = insert src (set tr)" using 2 by simp
  show ?case
  proof (cases "src \<in> set tr")
    case True
    then have eq: "set traversed = set tr" using tr by auto
    have sub: "(set (queue @ queued) \<union> ?T) - set traversed \<subseteq> (set (src # queue) \<union> ?T) - set tr"
      using q eq by auto
    have le: "card ((set (queue @ queued) \<union> ?T) - set traversed)
              \<le> card ((set (src # queue) \<union> ?T) - set tr)"
      by (rule card_mono) (use sub in auto)
    have f0: "filter (\<lambda>n. n \<in> set traversed) queued = []"
      using q(2) by (auto simp: filter_empty_conv)
    have lt: "length (filter (\<lambda>n. n \<in> set traversed) (queue @ queued))
              < length (filter (\<lambda>n. n \<in> set tr) (src # queue))"
      using True f0 eq by simp
    show ?thesis
      using le lt by (auto simp: mlex_iff)
  next
    case False
    have sub: "(set (queue @ queued) \<union> ?T) - set traversed \<subset> (set (src # queue) \<union> ?T) - set tr"
      using q tr False by auto
    have lt: "card ((set (queue @ queued) \<union> ?T) - set traversed)
              < card ((set (src # queue) \<union> ?T) - set tr)"
      by (rule psubset_card_mono) (use sub in auto)
    show ?thesis using lt by (auto simp: mlex_iff)
  qed
qed

text \<open>
  The walks from all starting nodes share the traversed nodes and the edges to remove. The
  copy \<open>networkx.DiGraph(graph)\<close> lists the edges source by source, in the order of the
  nodes.
\<close>

fun traverse_all_cases ::
    "graph \<Rightarrow> node list \<Rightarrow> node list \<Rightarrow> node list \<Rightarrow> (node \<times> node) list
      \<Rightarrow> node list \<times> (node \<times> node) list" where
  "traverse_all_cases g starting_nodes [] traversed_nodes edges_to_remove =
    (traversed_nodes, edges_to_remove)"
| "traverse_all_cases g starting_nodes (n # ns) traversed_nodes edges_to_remove =
    (case traverse_cases g starting_nodes [n] traversed_nodes edges_to_remove of
       (tr, er) \<Rightarrow> traverse_all_cases g starting_nodes ns tr er)"

definition copy_graph :: "graph \<Rightarrow> graph" where
  "copy_graph g =
    \<lparr>nodes_of = nodes_of g,
     edges_of = concat (map (\<lambda>u. filter (\<lambda>e. fst e = u) (edges_of g)) (nodes_of g))\<rparr>"

definition remove_edges_from :: "graph \<Rightarrow> (node \<times> node) list \<Rightarrow> graph" where
  "remove_edges_from g es =
    g\<lparr>edges_of := filter (\<lambda>e. (fst e, fst (snd e)) \<notin> set es) (edges_of g)\<rparr>"

definition remove_crossing_edges_between_cases :: "graph \<Rightarrow> (int \<times> int) list \<Rightarrow> graph" where
  "remove_crossing_edges_between_cases g case_entry_to_switch_head =
    (let starting_nodes = filter (\<lambda>n. map_of case_entry_to_switch_head (addr n) \<noteq> None) (nodes_of g)
     in if starting_nodes = [] then g
        else
          (case traverse_all_cases g starting_nodes starting_nodes [] [] of
             (traversed_nodes, edges_to_remove) \<Rightarrow>
               if edges_to_remove = [] then g
               else remove_edges_from (copy_graph g) edges_to_remove))"

text \<open>\<open>create_jump_target_var(jumptable_head_addr)\<close>.\<close>

definition create_jump_target_var :: "processor \<Rightarrow> int \<Rightarrow> ast" where
  "create_jump_target_var st jumptable_head_addr =
    BVS (''jump_table_'' @ format_x jumptable_head_addr) (arch_bits st)"

text \<open>
  The formula of lines 348 to 356 for a node: its predecessors in turn, each contributing
  the conjunction of its own reaching condition (\<open>true\<close> when it has none yet) and the
  predicate of its edge (\<open>true\<close> when the edge has none); \<open>None\<close> when there is no
  predecessor.
\<close>

definition get_or_true :: "('a \<rightharpoonup> ast) \<Rightarrow> 'a \<Rightarrow> ast" where
  "get_or_true m k = (case m k of None \<Rightarrow> BoolV True | Some c \<Rightarrow> c)"

definition or_over_predecessors ::
    "env \<Rightarrow> ((node \<times> node) \<rightharpoonup> ast) \<Rightarrow> (node \<rightharpoonup> ast) \<Rightarrow> node list \<Rightarrow> node \<Rightarrow> ast option" where
  "or_over_predecessors E edge_conditions rc preds n =
    fold (\<lambda>pred reaching_condition.
            (let c = lib_op (env_lib E) ''And''
                       [get_or_true rc pred, get_or_true edge_conditions (pred, n)]
             in case reaching_condition of
                  None \<Rightarrow> Some c
                | Some r \<Rightarrow> Some (lib_op (env_lib E) ''Or'' [c, r])))
         preds None"

text \<open>
  One round of the loop of lines 325 to 361. The loop state is the dictionary
  \<open>reaching_conditions\<close> under construction and the processor, whose
  \<open>jump_table_conds\<close> the round may extend. The list \<open>terminating_nodes\<close> is never read
  and is left out.
\<close>

definition store_condition ::
    "env \<Rightarrow> bool \<Rightarrow> node \<Rightarrow> ast \<Rightarrow> (node \<rightharpoonup> ast) \<Rightarrow> error + (node \<rightharpoonup> ast)" where
  "store_condition E simplify_conditions n reaching_condition rc =
    (if simplify_conditions then
       (case simplify_condition (env_lib E) reaching_condition 8 8 of
          Inl e \<Rightarrow> Inl e
        | Inr c \<Rightarrow> Inr (rc(n \<mapsto> c)))
     else Inr (rc(n \<mapsto> reaching_condition)))"

definition visit_node ::
    "env \<Rightarrow> graph \<Rightarrow> node \<Rightarrow> (node \<rightharpoonup> node) option \<Rightarrow> ((node \<times> node) \<rightharpoonup> ast)
      \<Rightarrow> (int \<times> int) list \<Rightarrow> bool \<Rightarrow> node \<Rightarrow> (node \<rightharpoonup> ast) \<times> processor
      \<Rightarrow> error + ((node \<rightharpoonup> ast) \<times> processor)" where
  "visit_node E g hnode idoms edge_conditions case_entry_to_switch_head simplify_conditions n s =
    (case s of (rc, st) \<Rightarrow>
       (case map_of case_entry_to_switch_head (addr n) of
          Some switch_head \<Rightarrow>
            (let jump_target_var = create_jump_target_var st switch_head;
                 cond = lib_op (env_lib E) ''__eq__''
                          [jump_target_var, claripy_BVV (addr n) (arch_bits st)]
             in Inr (rc(n \<mapsto> cond),
                     st\<lparr>jump_table_conds :=
                          (jump_table_conds st)
                            (switch_head := List.insert cond (jump_table_conds st switch_head))\<rparr>))
        | None \<Rightarrow>
            if n = hnode then
              (case store_condition E simplify_conditions n (BoolV True) rc of
                 Inl e \<Rightarrow> Inl e
               | Inr rc' \<Rightarrow> Inr (rc', st))
            else if (case idoms of None \<Rightarrow> False | Some i \<Rightarrow> env_dominates E i n hnode) then
              Inr (rc(n \<mapsto> BoolV True), st)
            else
              (case or_over_predecessors E edge_conditions rc (predecessors g n) n of
                 None \<Rightarrow> Inr (rc, st)
               | Some reaching_condition \<Rightarrow>
                   (case store_condition E simplify_conditions n reaching_condition rc of
                      Inl e \<Rightarrow> Inl e
                    | Inr rc' \<Rightarrow> Inr (rc', st)))))"

fun visit_nodes ::
    "env \<Rightarrow> graph \<Rightarrow> node \<Rightarrow> (node \<rightharpoonup> node) option \<Rightarrow> ((node \<times> node) \<rightharpoonup> ast)
      \<Rightarrow> (int \<times> int) list \<Rightarrow> bool \<Rightarrow> node list \<Rightarrow> (node \<rightharpoonup> ast) \<times> processor
      \<Rightarrow> error + ((node \<rightharpoonup> ast) \<times> processor)" where
  "visit_nodes E g hnode idoms ec cs sc [] s = Inr s"
| "visit_nodes E g hnode idoms ec cs sc (n # ns) s =
    (case visit_node E g hnode idoms ec cs sc n s of
       Inl e \<Rightarrow> Inl e
     | Inr s' \<Rightarrow> visit_nodes E g hnode idoms ec cs sc ns s')"

text \<open>
  The guarding condition of a node with exactly two predecessors (lines 368 to 400): the
  slice of nodes from which the node is reached, the successors of slice nodes that have
  no path to the node, the predicates of the edges that enter those from outside them, and
  the disjunction of the negated predicates.
\<close>

definition nodes_do_not_reach_the_node :: "env \<Rightarrow> graph \<Rightarrow> node list \<Rightarrow> node \<Rightarrow> node list" where
  "nodes_do_not_reach_the_node E g subgraph the_node =
    fold (\<lambda>n acc.
            if n = the_node then acc
            else fold (\<lambda>succ acc'.
                         if \<not> env_has_path E g succ the_node \<and> succ \<notin> set acc'
                         then acc' @ [succ] else acc')
                      (successors g n) acc)
         subgraph []"

definition diverging_conditions ::
    "graph \<Rightarrow> ((node \<times> node) \<rightharpoonup> ast) \<Rightarrow> node list \<Rightarrow> ast list" where
  "diverging_conditions g edge_conditions not_reaching =
    concat (map (\<lambda>n.
                   concat (map (\<lambda>pred.
                                  if pred \<in> set not_reaching then []
                                  else (case edge_conditions (pred, n) of
                                          None \<Rightarrow> []
                                        | Some c \<Rightarrow> [c]))
                               (predecessors g n)))
                not_reaching)"

definition guarding_condition_of ::
    "env \<Rightarrow> graph \<Rightarrow> graph \<Rightarrow> ((node \<times> node) \<rightharpoonup> ast) \<Rightarrow> node \<Rightarrow> ast option" where
  "guarding_condition_of E g inverted_graph edge_conditions the_node =
    (if length (predecessors g the_node) \<noteq> 2 then None
     else
       (let slice_nodes = env_dfs_tree E inverted_graph the_node;
            subgraph = filter (\<lambda>n. n \<in> set slice_nodes) (nodes_of g);
            not_reaching = nodes_do_not_reach_the_node E g subgraph the_node;
            diverging = diverging_conditions g edge_conditions not_reaching
        in if diverging = [] then None
           else Some (lib_op (env_lib E) ''Or''
                        (map (\<lambda>c. lib_op (env_lib E) ''Not'' [c]) diverging))))"

definition recover_guarding_conditions ::
    "env \<Rightarrow> graph \<Rightarrow> graph \<Rightarrow> ((node \<times> node) \<rightharpoonup> ast) \<Rightarrow> node list \<Rightarrow> (node \<rightharpoonup> ast)" where
  "recover_guarding_conditions E g inverted_graph edge_conditions sorted_nodes =
    fold (\<lambda>the_node gc.
            (case guarding_condition_of E g inverted_graph edge_conditions the_node of
               None \<Rightarrow> gc
             | Some cond \<Rightarrow> gc(the_node \<mapsto> cond)))
         sorted_nodes Map.empty"

text \<open>
  \<open>recover_reaching_conditions(region, graph, with_successors, case_entry_to_switch_head,
  simplify_conditions)\<close>. With a graph given, the head is the first node without a
  predecessor, and \<open>next\<close> raises StopIteration when there is none.
\<close>

definition select_graph_and_head ::
    "region \<Rightarrow> graph option \<Rightarrow> bool \<Rightarrow> error + (graph \<times> node)" where
  "select_graph_and_head r go with_successors =
    (case given_graph go of
       Some g \<Rightarrow>
         (case filter (\<lambda>n. in_degree g n = 0) (nodes_of g) of
            [] \<Rightarrow> Inl StopIteration
          | n # rest \<Rightarrow> Inr (g, n))
     | None \<Rightarrow>
         (case (if with_successors then graph_with_successors r else None) of
            Some gs \<Rightarrow> Inr (gs, head r)
          | None \<Rightarrow> Inr (region_graph r, head r)))"

definition recover_reaching_conditions ::
    "env \<Rightarrow> region \<Rightarrow> graph option \<Rightarrow> bool \<Rightarrow> (int \<times> int) list \<Rightarrow> bool \<Rightarrow> processor
      \<Rightarrow> error + processor" where
  "recover_reaching_conditions E r go with_successors case_entry_to_switch_head
      simplify_conditions st =
    (case recover_edge_conditions E r go st of
       Inl e \<Rightarrow> Inl e
     | Inr (edge_conditions, st1) \<Rightarrow>
         (case select_graph_and_head r go with_successors of
            Inl e \<Rightarrow> Inl e
          | Inr (g0, hnode) \<Rightarrow>
              (let g = (if case_entry_to_switch_head \<noteq> []
                        then remove_crossing_edges_between_cases g0 case_entry_to_switch_head
                        else g0);
                   inverted = env_inverted_idoms E g;
                   sorted_nodes = env_quasi_topological_sort_nodes E g
               in case visit_nodes E g hnode (snd inverted) edge_conditions
                         case_entry_to_switch_head simplify_conditions sorted_nodes
                         (Map.empty, st1) of
                    Inl e \<Rightarrow> Inl e
                  | Inr (rc, st2) \<Rightarrow>
                      Inr (st2\<lparr>reaching_conditions := rc,
                               guarding_conditions :=
                                 recover_guarding_conditions E g (fst inverted) edge_conditions
                                   sorted_nodes\<rparr>))))"

section \<open>Example collaborators for the graph analyses\<close>

text \<open>
  A printer of AIL expressions, the walk up the tree of immediate dominators, the inverted
  graph and reachability by iteration, for evaluating the analyses on concrete regions.
  The example regions list their nodes in a topological order, and come with the table of
  their immediate post-dominators.
\<close>

fun example_repr :: "ail_expr \<Rightarrow> string" where
  "example_repr (Const v b) = str_int (const_int v) @ ''<'' @ str_int (int b) @ ''>''"
| "example_repr (Register r v i b) = ''reg_'' @ str_int r @ ''<'' @ str_int (int b) @ ''>''"
| "example_repr (Tmp i b) = ''t'' @ str_int (int i)"
| "example_repr (UnaryOp opn e b tg) = ''('' @ opn @ '' '' @ example_repr e @ '')''"
| "example_repr (BinaryOp opn vop e0 e1 b tg) =
    ''('' @ example_repr e0 @ '' '' @ vop @ '' '' @ example_repr e1 @ '')''"
| "example_repr e = ''expr''"

fun walk_dominates :: "nat \<Rightarrow> (node \<rightharpoonup> node) \<Rightarrow> node \<Rightarrow> node \<Rightarrow> bool" where
  "walk_dominates 0 idom d n = (n = d)"
| "walk_dominates (Suc k) idom d n =
    (if n = d then True
     else (case idom n of
             None \<Rightarrow> False
           | Some m \<Rightarrow> if m \<noteq> n then walk_dominates k idom d m else False))"

definition invert_graph :: "graph \<Rightarrow> graph" where
  "invert_graph g = g\<lparr>edges_of := map (\<lambda>e. (fst (snd e), fst e, snd (snd e))) (edges_of g)\<rparr>"

fun reachable :: "nat \<Rightarrow> graph \<Rightarrow> node list \<Rightarrow> node list" where
  "reachable 0 g ns = ns"
| "reachable (Suc k) g ns = reachable k g (remdups (ns @ concat (map (successors g) ns)))"

definition example_env :: "(node \<times> node) list \<Rightarrow> env" where
  "example_env idoms =
    \<lparr>env_lib = example_library,
     env_repr = example_repr,
     env_ast_repr = ast_op,
     env_hash_expr = (\<lambda>e. int (size e)),
     env_size = (\<lambda>a. 32),
     env_is_head_controlled_loop_block = (\<lambda>n. False),
     env_inverted_idoms = (\<lambda>g. (invert_graph g, Some (map_of idoms))),
     env_dominates = walk_dominates (length idoms),
     env_quasi_topological_sort_nodes = nodes_of,
     env_dfs_tree = (\<lambda>g n. reachable (length (nodes_of g)) g [n]),
     env_has_path = (\<lambda>g a b. b \<in> set (reachable (length (nodes_of g)) g [a]))\<rparr>"

section \<open>Notions used in the statements\<close>

text \<open>
  An operator expression whose operator has no entry in the translation table, neither
  under its \<open>verbose_op\<close> nor under its \<open>op\<close>; the symbol that stands for such an
  expression; the name of a symbol.
\<close>

definition unmodelled_operator :: "ail_expr \<Rightarrow> bool" where
  "unmodelled_operator e =
    (case e of
       UnaryOp opn x b tg \<Rightarrow> map_of ail2claripy_op_mapping opn = None
     | BinaryOp opn vop x y b tg \<Rightarrow>
         map_of ail2claripy_op_mapping vop = None \<and> map_of ail2claripy_op_mapping opn = None
     | _ \<Rightarrow> False)"

definition opaque_symbol :: "env \<Rightarrow> ail_expr \<Rightarrow> bool \<Rightarrow> ast" where
  "opaque_symbol E e must_bool =
    (if bits e = 1 \<and> must_bool then BoolS (''bool_from_bv1_ailexpr_'' @ env_repr E e)
     else BVS (''ailexpr_'' @ env_repr E e) (bits e))"

fun symbol_name :: "ast \<Rightarrow> string" where
  "symbol_name (BoolS n) = n"
| "symbol_name (BVS n w) = n"
| "symbol_name a = []"

text \<open>What a run of \<open>recover_reaching_conditions\<close> leaves behind, or its exception.\<close>

definition reaching_of :: "error + processor \<Rightarrow> node \<Rightarrow> error + ast option" where
  "reaching_of res n = (case res of Inl e \<Rightarrow> Inl e | Inr st \<Rightarrow> Inr (reaching_conditions st n))"

definition conditions_of ::
    "error + processor \<Rightarrow> error + ((node \<rightharpoonup> ast) \<times> (node \<rightharpoonup> ast))" where
  "conditions_of res =
    (case res of
       Inl e \<Rightarrow> Inl e
     | Inr st \<Rightarrow> Inr (reaching_conditions st, guarding_conditions st))"

text \<open>The graph that the loop over the nodes runs on, after the trimming of case edges.\<close>

definition trimmed_graph :: "graph \<Rightarrow> (int \<times> int) list \<Rightarrow> graph" where
  "trimmed_graph g0 case_entry_to_switch_head =
    (if case_entry_to_switch_head \<noteq> []
     then remove_crossing_edges_between_cases g0 case_entry_to_switch_head
     else g0)"

text \<open>The condition of a jump-table entry at address \<open>a\<close> of the table at \<open>switch_head\<close>.\<close>

definition jump_table_condition :: "env \<Rightarrow> nat \<Rightarrow> int \<Rightarrow> int \<Rightarrow> ast" where
  "jump_table_condition E b switch_head a =
    lib_op (env_lib E) ''__eq__''
      [BVS (''jump_table_'' @ format_x switch_head) b, claripy_BVV a b]"

text \<open>Two calls on one processor, with \<open>clear()\<close> in between.\<close>

definition recover_again_after_clear ::
    "env \<Rightarrow> region \<Rightarrow> graph option \<Rightarrow> bool \<Rightarrow> (int \<times> int) list \<Rightarrow> bool \<Rightarrow> processor
      \<Rightarrow> error + processor" where
  "recover_again_after_clear E r go ws cs sc st =
    (case recover_reaching_conditions E r go ws cs sc st of
       Inl e \<Rightarrow> Inl e
     | Inr st1 \<Rightarrow> recover_reaching_conditions E r go ws cs sc (clear st1))"

text \<open>
  Two conditions are mutual negations: no assignment makes their conjunction hold, and
  their disjunction holds under every assignment that gives the first a truth value. A
  library constructor is faithful when the term it returns means what the plain term
  means.
\<close>

definition mutual_negations :: "ast \<Rightarrow> ast \<Rightarrow> bool" where
  "mutual_negations p q =
    ((\<forall>bs ns. \<not> holds bs ns (Op ''And'' [p, q]))
     \<and> (\<forall>bs ns. (\<exists>v. eval bs ns p = Some (VB v)) \<longrightarrow> holds bs ns (Op ''Or'' [p, q])))"

definition faithful :: "library \<Rightarrow> string \<Rightarrow> bool" where
  "faithful L n = (\<forall>xs bs ns. eval bs ns (lib_op L n xs) = eval bs ns (Op n xs))"

section \<open>Example regions\<close>

text \<open>
  Blocks that end in a conditional jump on a condition that is a claripy term already, in
  a jump to a constant target, in an indirect jump through a register, or in a statement
  that is no jump.
\<close>

definition branch_block :: "int \<Rightarrow> ast \<Rightarrow> int \<Rightarrow> int \<Rightarrow> node" where
  "branch_block a c t f =
    AilBlock a None [ConditionalJump (Claripy c) (Some (Const (CInt t) 64)) (Some (Const (CInt f) 64)) a]"

definition jump_block :: "int \<Rightarrow> int \<Rightarrow> node" where
  "jump_block a t = AilBlock a None [Jump (Const (CInt t) 64) a]"

definition switch_block :: "int \<Rightarrow> node" where
  "switch_block a = AilBlock a None [Jump (Register 16 None None 64) a]"

definition plain_block :: "int \<Rightarrow> node" where
  "plain_block a = AilBlock a None [Statement ''stmt'']"

text \<open>
  A diamond: the head branches on a condition to blocks 1 and 2, which both jump to block
  3; block 3 post-dominates every block.
\<close>

definition branch_condition :: ast where
  "branch_condition =
    Op ''Or'' [Op ''And'' [BoolS ''a'', Op ''Not'' [BoolS ''b'']],
               Op ''ULT'' [BVS ''x'' 32, BVV 5 32]]"

definition diamond_graph :: graph where
  "diamond_graph =
    \<lparr>nodes_of = [branch_block 0 branch_condition 1 2, jump_block 1 3, jump_block 2 3, plain_block 3],
     edges_of = [(branch_block 0 branch_condition 1 2, jump_block 1 3, None),
                 (branch_block 0 branch_condition 1 2, jump_block 2 3, None),
                 (jump_block 1 3, plain_block 3, None),
                 (jump_block 2 3, plain_block 3, None)]\<rparr>"

definition diamond_region :: region where
  "diamond_region =
    \<lparr>head = branch_block 0 branch_condition 1 2, region_graph = diamond_graph,
     graph_with_successors = None\<rparr>"

definition diamond_idoms :: "(node \<times> node) list" where
  "diamond_idoms =
    [(branch_block 0 branch_condition 1 2, plain_block 3), (jump_block 1 3, plain_block 3),
     (jump_block 2 3, plain_block 3)]"

text \<open>
  A fork: as the diamond, but block 2 branches on \<open>d\<close> to block 3 or to the exit block 4, so
  that block 3 post-dominates block 1 only.
\<close>

definition fork_graph :: graph where
  "fork_graph =
    \<lparr>nodes_of = [branch_block 0 (BoolS ''c'') 1 2, jump_block 1 3, branch_block 2 (BoolS ''d'') 3 4,
                 plain_block 3, plain_block 4],
     edges_of = [(branch_block 0 (BoolS ''c'') 1 2, jump_block 1 3, None),
                 (branch_block 0 (BoolS ''c'') 1 2, branch_block 2 (BoolS ''d'') 3 4, None),
                 (jump_block 1 3, plain_block 3, None),
                 (branch_block 2 (BoolS ''d'') 3 4, plain_block 3, None),
                 (branch_block 2 (BoolS ''d'') 3 4, plain_block 4, None)]\<rparr>"

definition fork_region :: region where
  "fork_region =
    \<lparr>head = branch_block 0 (BoolS ''c'') 1 2, region_graph = fork_graph,
     graph_with_successors = None\<rparr>"

definition fork_idoms :: "(node \<times> node) list" where
  "fork_idoms = [(jump_block 1 3, plain_block 3)]"

text \<open>A switch: an indirect jump at 0 to the case entries at 16 and 32.\<close>

definition switch_graph :: graph where
  "switch_graph =
    \<lparr>nodes_of = [switch_block 0, plain_block 16, plain_block 32],
     edges_of = [(switch_block 0, plain_block 16, None), (switch_block 0, plain_block 32, None)]\<rparr>"

definition switch_region :: region where
  "switch_region = \<lparr>head = switch_block 0, region_graph = switch_graph, graph_with_successors = None\<rparr>"

text \<open>A switch with a single case entry, which post-dominates the head.\<close>

definition single_case_graph :: graph where
  "single_case_graph =
    \<lparr>nodes_of = [switch_block 0, plain_block 16],
     edges_of = [(switch_block 0, plain_block 16, None)]\<rparr>"

definition single_case_region :: region where
  "single_case_region =
    \<lparr>head = switch_block 0, region_graph = single_case_graph, graph_with_successors = None\<rparr>"

definition single_case_idoms :: "(node \<times> node) list" where
  "single_case_idoms = [(switch_block 0, plain_block 16)]"

text \<open>A block with an exception edge to a landing block.\<close>

definition exception_graph :: graph where
  "exception_graph =
    \<lparr>nodes_of = [plain_block 0, plain_block 16],
     edges_of = [(plain_block 0, plain_block 16, Some ''exception'')]\<rparr>"

definition exception_region :: region where
  "exception_region =
    \<lparr>head = plain_block 0, region_graph = exception_graph, graph_with_successors = None\<rparr>"

text \<open>Two expressions with unmodelled operators.\<close>

definition unmodelled_example :: ail_expr where
  "unmodelled_example =
    BinaryOp ''Frobnicate'' ''Frobnicate'' (Const (CInt 1) 32) (Const (CInt 2) 32) 32 []"

definition unmodelled_example2 :: ail_expr where
  "unmodelled_example2 = UnaryOp ''Sqrt'' (Const (CInt 2) 32) 32 []"

text \<open>The runs of the analysis on the example regions, with a new processor for 64 bits.\<close>

definition plain_env :: env where
  "plain_env = (example_env [])\<lparr>env_lib := plain_library\<rparr>"

definition diamond_run :: "error + processor" where
  "diamond_run =
    recover_reaching_conditions (example_env diamond_idoms) diamond_region None False [] True
      (new_processor 64)"

definition fork_run :: "bool \<Rightarrow> error + processor" where
  "fork_run sc =
    recover_reaching_conditions (example_env fork_idoms) fork_region None False [] sc
      (new_processor 64)"

definition switch_run :: "error + processor" where
  "switch_run =
    recover_reaching_conditions (example_env []) switch_region None False [(16, 0), (32, 0)] True
      (new_processor 64)"

definition single_case_run :: "error + processor" where
  "single_case_run =
    recover_reaching_conditions (example_env single_case_idoms) single_case_region None False
      [(16, 0)] True (new_processor 64)"

definition head_case_run :: "error + processor" where
  "head_case_run =
    recover_reaching_conditions (example_env []) switch_region None False [(0, 0)] True
      (new_processor 64)"

definition exception_run :: "error + processor" where
  "exception_run =
    recover_reaching_conditions (example_env []) exception_region None False [] False
      (new_processor 64)"

definition exception_rerun :: "error + processor" where
  "exception_rerun =
    recover_again_after_clear (example_env []) exception_region None False [] False
      (new_processor 64)"

text \<open>
  Well-formed terms: a \<open>Not\<close> node has exactly one argument, as every term that claripy
  builds has.
\<close>

fun well_formed :: "ast \<Rightarrow> bool" where
  "well_formed (Op n xs) = ((n \<noteq> ''Not'' \<or> length xs = 1) \<and> list_all well_formed xs)"
| "well_formed c = True"

text \<open>Conditions used in the worked examples.\<close>

definition deep_condition :: ast where
  "deep_condition = ((\<lambda>c. Op ''Not'' [Op ''And'' [c, BoolS ''b'']]) ^^ 4) (BoolS ''a'')"

definition constant_oracle_library :: library where
  "constant_oracle_library = example_library\<lparr>lib_simplify_logic := (\<lambda>e. BooleanTrue)\<rparr>"

definition tautology_condition :: ast where
  "tautology_condition = Op ''Or'' [BoolS ''a'', Op ''Not'' [BoolS ''a''], BoolS ''b'']"

section \<open>Verified properties\<close>

subsection \<open>The simplification passes\<close>

lemma depth_deep_condition: "depth deep_condition = 9"
  by (simp add: deep_condition_def numeral_nat)

text \<open>
  Claim C5. \<open>simplify_condition\<close> returns the very term it was given whenever the depth of
  the term exceeds the depth limit or the number of its symbols exceeds the variable
  limit, whatever the library and the oracle are; a term within both limits is translated
  to sympy, handed to the minimization oracle, and the oracle's answer is translated back.
\<close>

theorem simplify_condition_size_gate:
  "(depth_limit < depth cond \<or> variables_limit < card (variables cond)
      \<longrightarrow> simplify_condition L cond depth_limit variables_limit = Inr cond)
   \<and> (\<not> (depth_limit < depth cond \<or> variables_limit < card (variables cond))
      \<longrightarrow> simplify_condition L cond depth_limit variables_limit =
          (case claripy_ast_to_sympy_expr L (lib_recursion_limit L) cond Map.empty of
             Inl e \<Rightarrow> Inl e
           | Inr (sympy_expr, memo) \<Rightarrow>
               sympy_expr_to_claripy_ast L (lib_simplify_logic L sympy_expr) memo))"
  by (simp add: simplify_condition_def)

text \<open>
  At the default limits, a condition of depth 9 comes back unchanged although the oracle
  would answer \<open>true\<close>, and a condition of depth 3 gets the oracle's answer.
\<close>

theorem simplify_condition_size_gate_witness:
  "8 < depth deep_condition
   \<and> simplify_condition constant_oracle_library deep_condition 8 8 = Inr deep_condition
   \<and> simplify_condition constant_oracle_library
        (Op ''Not'' [Op ''And'' [BoolS ''a'', BoolS ''b'']]) 8 8 = Inr (BoolV True)"
  using simplify_condition_size_gate [of 8 deep_condition 8 constant_oracle_library]
    simplify_condition_size_gate
      [of 8 "Op ''Not'' [Op ''And'' [BoolS ''a'', BoolS ''b'']]" 8 constant_oracle_library]
  by (simp add: depth_deep_condition constant_oracle_library_def example_library_def item_def
        UNIFIABLE_COMPARISONS_def numeral_nat)

text \<open>
  Claim C6, as the code has it. When the first two arms of the disjunction are \<open>not_a\<close> and
  a conjunction \<open>a' \<and> not_b\<close>, \<open>a'\<close> has the same set of symbols as \<open>not_a\<close>, and the solver
  finds \<open>not_a == a'\<close> unsatisfiable, the pass returns
  \<open>Not(And(Not(not_a), Not(not_b)))\<close>, built with the library's constructors, followed by
  the remaining arms as they are. In particular \<open>\<not>A \<or> (A \<and> \<not>B)\<close> yields exactly
  \<open>\<not>(A \<and> B)\<close> when the library drops the doubled negations and the solver refutes
  \<open>\<not>A == A\<close>.
\<close>

theorem revert_short_circuit_conditions_rewrite:
  "(variables not_a = variables a' \<and> \<not> lib_satisfiable L [lib_op L ''__eq__'' [not_a, a']]
      \<longrightarrow> revert_short_circuit_conditions L (Op ''Or'' (not_a # Op ''And'' [a', not_b] # rest)) =
          Inr (if rest = []
               then lib_op L ''Not'' [lib_op L ''And'' [lib_op L ''Not'' [not_a], lib_op L ''Not'' [not_b]]]
               else lib_op L ''Or''
                      (lib_op L ''Not'' [lib_op L ''And'' [lib_op L ''Not'' [not_a], lib_op L ''Not'' [not_b]]]
                         # rest)))
   \<and> (\<not> lib_satisfiable L [lib_op L ''__eq__'' [Op ''Not'' [A], A]]
        \<and> lib_op L ''Not'' [Op ''Not'' [A]] = A \<and> lib_op L ''Not'' [Op ''Not'' [B]] = B
        \<and> lib_op L ''And'' [A, B] = Op ''And'' [A, B]
        \<and> lib_op L ''Not'' [Op ''And'' [A, B]] = Op ''Not'' [Op ''And'' [A, B]]
      \<longrightarrow> revert_short_circuit_conditions L (Op ''Or'' [Op ''Not'' [A], Op ''And'' [A, Op ''Not'' [B]]]) =
          Inr (Op ''Not'' [Op ''And'' [A, B]]))"
  by (auto simp add: revert_short_circuit_conditions_def item_def Let_def)

theorem revert_short_circuit_conditions_rewrite_witness:
  "variables (Op ''Not'' [BoolS ''a'']) = variables (BoolS ''a'')
   \<and> \<not> lib_satisfiable example_library
         [lib_op example_library ''__eq__'' [Op ''Not'' [BoolS ''a''], BoolS ''a'']]
   \<and> lib_op example_library ''Not'' [Op ''Not'' [BoolS ''a'']] = BoolS ''a''
   \<and> revert_short_circuit_conditions example_library
        (Op ''Or'' [Op ''Not'' [BoolS ''a''], Op ''And'' [BoolS ''a'', Op ''Not'' [BoolS ''b'']]]) =
       Inr (Op ''Not'' [Op ''And'' [BoolS ''a'', BoolS ''b'']])
   \<and> revert_short_circuit_conditions example_library
        (Op ''Or'' [Op ''Not'' [BoolS ''a''], Op ''And'' [BoolS ''a'', Op ''Not'' [BoolS ''b'']],
                    BoolS ''c'']) =
       Inr (Op ''Or'' [Op ''Not'' [Op ''And'' [BoolS ''a'', BoolS ''b'']], BoolS ''c''])"
  using revert_short_circuit_conditions_rewrite
     [of "Op ''Not'' [BoolS ''a'']" "BoolS ''a''" example_library "Op ''Not'' [BoolS ''b'']" "[]"
         "BoolS ''a''" "BoolS ''b''"]
    revert_short_circuit_conditions_rewrite
     [of "Op ''Not'' [BoolS ''a'']" "BoolS ''a''" example_library "Op ''Not'' [BoolS ''b'']"
         "[BoolS ''c'']" "BoolS ''a''" "BoolS ''b''"]
  by (simp add: example_library_def folding_op_def truth_table_sat_def holds_def)

text \<open>
  The claim as written fails twice. A conjunct \<open>a \<or> (c \<and> \<not>c)\<close> is equivalent to \<open>a\<close> (the
  solver refutes \<open>\<not>a == a \<or> (c \<and> \<not>c)\<close>) but names another set of symbols, and the pass does
  not produce \<open>\<not>(a \<and> b)\<close>. And the arms after the first two are copied, not rewritten:
  the second short-circuit pair of a four-arm disjunction stays as it was.
\<close>

theorem revert_short_circuit_conditions_counterexample:
  "\<not> lib_satisfiable example_library
        [Op ''__eq__'' [Op ''Not'' [BoolS ''a''],
                        Op ''Or'' [BoolS ''a'', Op ''And'' [BoolS ''c'', Op ''Not'' [BoolS ''c'']]]]]
   \<and> revert_short_circuit_conditions example_library
        (Op ''Or'' [Op ''Not'' [BoolS ''a''],
                    Op ''And'' [Op ''Or'' [BoolS ''a'', Op ''And'' [BoolS ''c'', Op ''Not'' [BoolS ''c'']]],
                                Op ''Not'' [BoolS ''b'']]])
       \<noteq> Inr (Op ''Not'' [Op ''And'' [BoolS ''a'', BoolS ''b'']])
   \<and> revert_short_circuit_conditions example_library
        (Op ''Or'' [Op ''Not'' [BoolS ''a''], Op ''And'' [BoolS ''a'', Op ''Not'' [BoolS ''b'']],
                    Op ''Not'' [BoolS ''c''], Op ''And'' [BoolS ''c'', Op ''Not'' [BoolS ''d'']]])
       = Inr (Op ''Or'' [Op ''Not'' [Op ''And'' [BoolS ''a'', BoolS ''b'']],
                    Op ''Not'' [BoolS ''c''], Op ''And'' [BoolS ''c'', Op ''Not'' [BoolS ''d'']]])"
  by (simp add: revert_short_circuit_conditions_def item_def Let_def example_library_def
        folding_op_def truth_table_sat_def holds_def)

text \<open>
  Claim C7. On a term \<open>\<not>(\<not>A)\<close> the folding pass returns \<open>cond.args[0]\<close>, which is \<open>\<not>A\<close>, and not
  \<open>A\<close> as its own comment \<open>!(!A) ==> A\<close> says.
\<close>

theorem fold_double_negations_returns_inner_negation:
  "fold_double_negations L (Op ''Not'' [Op ''Not'' [A]]) = Inr (Some (Op ''Not'' [A]))"
  by (simp add: fold_double_negations_def item_def)

lemma extract_terms_total:
  "well_formed a \<Longrightarrow> \<exists>ts. extract_terms a = Inr ts"
  "list_all well_formed xs \<Longrightarrow> \<exists>ts. extract_terms_of_args xs = Inr ts"
proof (induction a and xs rule: extract_terms_extract_terms_of_args.induct)
  case (1 n xs)
  then show ?case by (cases xs) auto
qed auto

lemma replace_term_total:
  "well_formed a \<Longrightarrow> \<exists>r. replace_term_in_ast L a r0 w0 r1 w1 = Inr r"
  "list_all well_formed xs \<Longrightarrow> \<exists>rs. replace_term_in_asts L xs r0 w0 r1 w1 = Inr rs"
proof (induction L a r0 w0 r1 w1 and L xs r0 w0 r1 w1
       rule: replace_term_in_ast_replace_term_in_asts.induct)
  case (1 L n xs r0 w0 r1 w1)
  then show ?case by (cases xs) auto
qed auto

lemma term_is_redundant_total:
  assumes "well_formed cond"
  shows "\<exists>r. term_is_redundant L cond t neg = Inr r"
proof -
  obtain rt where rt: "replace_term_in_ast L cond t (BoolV True) neg (BoolV False) = Inr rt"
    using replace_term_total(1) [OF assms] by blast
  obtain rf where rf: "replace_term_in_ast L cond t (BoolV False) neg (BoolV True) = Inr rf"
    using replace_term_total(1) [OF assms] by blast
  show ?thesis
    by (auto simp add: term_is_redundant_def rt rf Let_def)
qed

lemma report_redundant_terms_total:
  assumes "well_formed cond"
  shows "\<exists>printed. report_redundant_terms L cond negations ts = Inr printed"
proof (induction ts)
  case Nil
  show ?case by simp
next
  case (Cons t ts)
  obtain r where r: "term_is_redundant L cond t (negations t) = Inr r"
    using term_is_redundant_total [OF assms] by blast
  from Cons obtain p where p: "report_redundant_terms L cond negations ts = Inr p" by blast
  show ?case by (simp add: r p)
qed

text \<open>
  Claim C9. On every well-formed condition the redundant-term pass runs to its end and
  returns \<open>None\<close>: it prints the terms that its queries prove irrelevant and commits no
  rewrite. Conditions are immutable values, so the one it was given is unchanged.
\<close>

theorem remove_redundant_terms_returns_None:
  assumes "well_formed cond"
  shows "\<exists>printed. remove_redundant_terms L cond = Inr (None, printed)"
proof -
  obtain ts where ts: "extract_terms cond = Inr ts"
    using extract_terms_total(1) [OF assms] by blast
  obtain negations to_skip without
    where st: "fold (pair_negation L (remdups ts)) (remdups ts) (Map.empty, [], [])
                 = (negations, to_skip, without)"
    by (metis prod_cases3)
  obtain p where p: "report_redundant_terms L cond negations (rev without) = Inr p"
    using report_redundant_terms_total [OF assms] by blast
  show ?thesis
    by (simp add: remove_redundant_terms_def ts st p)
qed

text \<open>Both terms of \<open>a \<or> \<not>a \<or> b\<close> are proved irrelevant and printed; nothing is returned.\<close>

theorem remove_redundant_terms_returns_None_witness:
  "well_formed tautology_condition
   \<and> remove_redundant_terms example_library tautology_condition
       = Inr (None, [BoolS ''a'', BoolS ''b''])"
  using remove_redundant_terms_returns_None [of tautology_condition example_library]
  by (simp add: remove_redundant_terms_def tautology_condition_def example_library_def
       pair_negation_def term_is_redundant_def folding_op_def truth_table_sat_def holds_def
       Let_def List.insert_def)

end
